theory Spec2Isabelle
  imports Main
begin

section \<open>Query builder: data model\<close>

text \<open>
  The generated builder \<open>ItemQuery\<close> (package \<open>ent\<close>) accumulates predicates, order,
  limit and offset and compiles them either to a \<open>sql.Selector\<close> or to a
  \<open>dsl.Traversal\<close>. The two query builders and the drivers live in the packages
  \<open>dialect/sql\<close> and \<open>dialect/gremlin\<close>; the builder only calls their methods.
\<close>

subsection \<open>Errors\<close>

text \<open>
  Every error value a terminal operation of \<open>ItemQuery\<close> can return. Errors that come
  from the driver are opaque to the builder and carry the driver's message.
\<close>

datatype error =
    ErrNotFound string
  | ErrNotSingular string
  | ErrUnsupportedDialect
  | ErrNoRowsFound
  | ErrFailedReadingCount string
  | ErrCheckExistence error
  | ErrDriver string

subsection \<open>Constants of package item\<close>

text \<open>
  The constants of the generated package \<open>item\<close>, which follow the pattern of package
  \<open>file\<close> (\<open>Label\<close>, \<open>FieldID\<close>, \<open>Table\<close>, \<open>Columns\<close>); the table
  \<open>items\<close> has the single column \<open>id\<close>.
\<close>

definition item_Label :: string where "item_Label = ''item''"
definition item_FieldID :: string where "item_FieldID = ''id''"
definition item_Table :: string where "item_Table = ''items''"
definition item_Columns :: "string list" where "item_Columns = [item_FieldID]"

text \<open>\<open>math.MaxInt32\<close>.\<close>

definition MaxInt32 :: int where "MaxInt32 = 2147483647"

text \<open>
  Addition of two Go \<open>int\<close> values (64 bits, two's complement): the sum wraps around.
\<close>

definition go_add :: "int \<Rightarrow> int \<Rightarrow> int" where
  "go_add a b = ((a + b + 2 ^ 63) mod 2 ^ 64) - 2 ^ 63"

subsection \<open>The relational selector\<close>

text \<open>
  An expression of a select list: a column qualified by its table, the \<open>DISTINCT\<close>
  of a column list (\<open>sql.Distinct\<close>) and the \<open>COUNT\<close> of a list of expressions
  (\<open>Selector.Count\<close>, where the empty list stands for \<open>COUNT(*)\<close>).
\<close>

datatype sqlexpr =
    Col string string
  | DistinctE "sqlexpr list"
  | CountE "sqlexpr list"

text \<open>
  The selector records what its methods were told: the table selected from, the select
  list, the \<open>DISTINCT\<close> flag, limit and offset, and the conditions and order terms that
  predicates and order functions add.
\<close>

record Selector =
  sel_table :: string
  sel_columns :: "sqlexpr list"
  sel_distinct :: bool
  sel_limit :: "int option"
  sel_offset :: "int option"
  sel_where :: "string list"
  sel_order :: "string list"

definition sql_Table_Columns :: "string \<Rightarrow> string list \<Rightarrow> sqlexpr list" where
  "sql_Table_Columns t cs = map (Col t) cs"

definition sql_Select_From :: "sqlexpr list \<Rightarrow> string \<Rightarrow> Selector" where
  "sql_Select_From cs t =
     \<lparr>sel_table = t, sel_columns = cs, sel_distinct = False, sel_limit = None,
      sel_offset = None, sel_where = [], sel_order = []\<rparr>"

definition Selector_Columns :: "Selector \<Rightarrow> string list \<Rightarrow> sqlexpr list" where
  "Selector_Columns s cs = map (Col (sel_table s)) cs"

definition Selector_Select :: "sqlexpr list \<Rightarrow> Selector \<Rightarrow> Selector" where
  "Selector_Select cs s = s\<lparr>sel_columns := cs\<rparr>"

definition Selector_Distinct :: "Selector \<Rightarrow> Selector" where
  "Selector_Distinct s = s\<lparr>sel_distinct := True\<rparr>"

definition Selector_Limit :: "int \<Rightarrow> Selector \<Rightarrow> Selector" where
  "Selector_Limit n s = s\<lparr>sel_limit := Some n\<rparr>"

definition Selector_Offset :: "int \<Rightarrow> Selector \<Rightarrow> Selector" where
  "Selector_Offset n s = s\<lparr>sel_offset := Some n\<rparr>"

definition Selector_Count :: "sqlexpr list \<Rightarrow> Selector \<Rightarrow> Selector" where
  "Selector_Count cs s = s\<lparr>sel_columns := [CountE cs]\<rparr>"

definition sql_Distinct :: "sqlexpr list \<Rightarrow> sqlexpr" where
  "sql_Distinct cs = DistinctE cs"

subsection \<open>The graph traversal\<close>

text \<open>
  A traversal is the list of its steps; every method of \<open>dsl.Traversal\<close> that the
  builder calls appends one step. \<open>HasStep\<close> stands for the steps predicates add and
  \<open>ByStep\<close> for those of order functions.
\<close>

datatype step =
    V
  | HasLabel string
  | HasStep string
  | OrderStep
  | ByStep string
  | RangeStep int int
  | LimitStep int
  | DedupStep
  | CountStep
  | HasNextStep
  | ValueMapStep bool

type_synonym Traversal = "step list"

subsection \<open>Predicates, order functions and the builder\<close>

text \<open>
  A \<open>predicate.Item\<close> and an \<open>Order\<close> are functions applied to the selector or to the
  traversal under construction, which they modify in place: one function per dialect.
\<close>

record Predicate =
  psql :: "Selector \<Rightarrow> Selector"
  pgremlin :: "Traversal \<Rightarrow> Traversal"

record OrderFn =
  osql :: "Selector \<Rightarrow> Selector"
  ogremlin :: "Traversal \<Rightarrow> Traversal"

text \<open>
  The fields of \<open>ItemQuery\<close>, read through its slices. \<open>limit\<close> and \<open>offset\<close> are
  pointers that are only ever replaced, never written through: \<open>None\<close> is \<open>nil\<close>.
\<close>

record ItemQuery =
  limit :: "int option"
  offset :: "int option"
  order :: "OrderFn list"
  unique :: "string list"
  predicates :: "Predicate list"
  sql :: "Selector option"
  gremlin :: "Traversal option"

section \<open>Compiling the builder\<close>

subsection \<open>\<open>sqlQuery\<close>\<close>

definition sql_base :: "ItemQuery \<Rightarrow> Selector" where
  "sql_base iq =
     (case sql iq of
        None \<Rightarrow> sql_Select_From (sql_Table_Columns item_Table item_Columns) item_Table
      | Some s \<Rightarrow> Selector_Select (Selector_Columns s item_Columns) s)"

definition sql_filtered :: "ItemQuery \<Rightarrow> Selector" where
  "sql_filtered iq = fold psql (predicates iq) (sql_base iq)"

definition sql_ordered :: "ItemQuery \<Rightarrow> Selector" where
  "sql_ordered iq = fold osql (order iq) (sql_filtered iq)"

definition sqlQuery :: "ItemQuery \<Rightarrow> Selector" where
  "sqlQuery iq =
     (let selector = sql_ordered iq;
          selector = (case offset iq of
                        None \<Rightarrow> selector
                      | Some off \<Rightarrow> Selector_Limit MaxInt32 (Selector_Offset off selector));
          selector = (case limit iq of
                        None \<Rightarrow> selector
                      | Some l \<Rightarrow> Selector_Limit l selector)
      in selector)"

subsection \<open>\<open>gremlinQuery\<close>\<close>

definition gremlin_base :: "ItemQuery \<Rightarrow> Traversal" where
  "gremlin_base iq =
     (case gremlin iq of None \<Rightarrow> [V, HasLabel item_Label] | Some t \<Rightarrow> t)"

definition gremlin_filtered :: "ItemQuery \<Rightarrow> Traversal" where
  "gremlin_filtered iq = fold pgremlin (predicates iq) (gremlin_base iq)"

definition gremlin_ordered :: "ItemQuery \<Rightarrow> Traversal" where
  "gremlin_ordered iq =
     (if order iq \<noteq> [] then fold ogremlin (order iq) (gremlin_filtered iq @ [OrderStep])
      else gremlin_filtered iq)"

definition gremlin_ranged :: "ItemQuery \<Rightarrow> Traversal" where
  "gremlin_ranged iq =
     (let v = gremlin_ordered iq in
      case (limit iq, offset iq) of
        (Some l, Some off) \<Rightarrow> v @ [RangeStep off (go_add off l)]
      | (None, Some off) \<Rightarrow> v @ [RangeStep off MaxInt32]
      | (Some l, None) \<Rightarrow> v @ [LimitStep l]
      | (None, None) \<Rightarrow> v)"

definition gremlinQuery :: "ItemQuery \<Rightarrow> Traversal" where
  "gremlinQuery iq =
     (let v = gremlin_ranged iq in
      if unique iq = [] then v @ [DedupStep] else v)"

section \<open>Drivers and terminal operations\<close>

subsection \<open>The driver\<close>

datatype dialect = MySQL | SQLite | Gremlin | OtherDialect string

text \<open>The entity: \<open>Item\<close> has no field besides its identifier.\<close>

record Item =
  ID :: string

text \<open>
  What the builder needs from its driver. \<open>Query\<close> runs a selector and gives the rows or
  the driver's error; \<open>ScanInt\<close> and \<open>ScanItem\<close> are \<open>rows.Scan\<close> into an
  \<open>int\<close> and into the fields of an \<open>Item\<close>. \<open>Eval\<close> is what the traversal server
  computes for a traversal: the list of elements it yields; \<open>DecodeItems\<close> decodes a
  value map into items.
\<close>

record ('r, 'e) driver =
  Dialect :: dialect
  Query :: "Selector \<Rightarrow> string + 'r list"
  ScanInt :: "'r \<Rightarrow> string + int"
  ScanItem :: "'r \<Rightarrow> string + Item"
  Eval :: "Traversal \<Rightarrow> string + 'e list"
  DecodeItems :: "'e list \<Rightarrow> string + Item list"

datatype 'e response = RespInt int | RespBool bool | RespElems "'e list"

text \<open>
  The traversal server answers a traversal that ends in \<open>count()\<close> with the number of
  elements the rest of the traversal yields, one that ends in \<open>hasNext()\<close> with whether
  the rest yields any element, and any other traversal with its elements.
\<close>

definition Exec :: "('r, 'e) driver \<Rightarrow> Traversal \<Rightarrow> error + 'e response" where
  "Exec d t =
     (if t \<noteq> [] \<and> last t = CountStep then
        (case Eval d (butlast t) of
           Inl m \<Rightarrow> Inl (ErrDriver m)
         | Inr xs \<Rightarrow> Inr (RespInt (int (length xs))))
      else if t \<noteq> [] \<and> last t = HasNextStep then
        (case Eval d (butlast t) of
           Inl m \<Rightarrow> Inl (ErrDriver m)
         | Inr xs \<Rightarrow> Inr (RespBool (xs \<noteq> [])))
      else
        (case Eval d t of
           Inl m \<Rightarrow> Inl (ErrDriver m)
         | Inr xs \<Rightarrow> Inr (RespElems xs)))"

definition ReadInt :: "'e response \<Rightarrow> error + int" where
  "ReadInt res = (case res of RespInt n \<Rightarrow> Inr n | _ \<Rightarrow> Inl (ErrDriver ''gremlin: not an int''))"

definition ReadBool :: "'e response \<Rightarrow> error + bool" where
  "ReadBool res = (case res of RespBool b \<Rightarrow> Inr b | _ \<Rightarrow> Inl (ErrDriver ''gremlin: not a bool''))"

text \<open>
  \<open>FromRows\<close> of the slice type (as \<open>Cars.FromRows\<close>): scan the rows one by one,
  appending each entity, and stop at the first error.
\<close>

fun Items_FromRows :: "('r \<Rightarrow> string + Item) \<Rightarrow> 'r list \<Rightarrow> Item list \<Rightarrow> error + Item list" where
  "Items_FromRows scan [] acc = Inr acc"
| "Items_FromRows scan (r # rs) acc =
     (case scan r of
        Inl m \<Rightarrow> Inl (ErrDriver m)
      | Inr i \<Rightarrow> Items_FromRows scan rs (acc @ [i]))"

text \<open>\<open>FromResponse\<close> of the slice type (template \<open>dialect/gremlin/decode/many\<close>).\<close>

definition Items_FromResponse :: "('r, 'e) driver \<Rightarrow> 'e response \<Rightarrow> error + Item list" where
  "Items_FromResponse d res =
     (case res of
        RespElems xs \<Rightarrow>
          (case DecodeItems d xs of Inl m \<Rightarrow> Inl (ErrDriver m) | Inr is \<Rightarrow> Inr is)
      | _ \<Rightarrow> Inl (ErrDriver ''gremlin: not a value map''))"

subsection \<open>Builder methods\<close>

definition Where :: "Predicate list \<Rightarrow> ItemQuery \<Rightarrow> ItemQuery" where
  "Where ps iq = iq\<lparr>predicates := predicates iq @ ps\<rparr>"

definition Limit :: "int \<Rightarrow> ItemQuery \<Rightarrow> ItemQuery" where
  "Limit n iq = iq\<lparr>limit := Some n\<rparr>"

definition Offset :: "int \<Rightarrow> ItemQuery \<Rightarrow> ItemQuery" where
  "Offset n iq = iq\<lparr>offset := Some n\<rparr>"

definition Order :: "OrderFn list \<Rightarrow> ItemQuery \<Rightarrow> ItemQuery" where
  "Order os iq = iq\<lparr>order := order iq @ os\<rparr>"

text \<open>
  When the builder holds an intermediate selector, \<open>sqlQuery\<close> and the methods called on
  its result work on that very selector: the builder's \<open>sql\<close> field afterwards holds
  the selector as the terminal operation left it.
\<close>

definition sql_touch :: "Selector \<Rightarrow> ItemQuery \<Rightarrow> ItemQuery" where
  "sql_touch s iq = iq\<lparr>sql := (case sql iq of None \<Rightarrow> None | Some _ \<Rightarrow> Some s)\<rparr>"

subsection \<open>Relational terminal operations\<close>

definition sqlAll_selector :: "ItemQuery \<Rightarrow> Selector" where
  "sqlAll_selector iq =
     (let selector = sqlQuery iq in
      if length (unique iq) = 0 then Selector_Distinct selector else selector)"

definition sqlAll :: "('r, 'e) driver \<Rightarrow> ItemQuery \<Rightarrow> (error + Item list) \<times> ItemQuery" where
  "sqlAll d iq =
     (let selector = sqlAll_selector iq in
      (case Query d selector of
         Inl m \<Rightarrow> Inl (ErrDriver m)
       | Inr rows \<Rightarrow> Items_FromRows (ScanItem d) rows [],
       sql_touch selector iq))"

definition sqlCount_selector :: "ItemQuery \<Rightarrow> Selector" where
  "sqlCount_selector iq =
     (let selector = sqlQuery iq;
          unique' = (if length (unique iq) > 0 then unique iq else [item_FieldID])
      in Selector_Count [sql_Distinct (Selector_Columns selector unique')] selector)"

definition sqlCount :: "('r, 'e) driver \<Rightarrow> ItemQuery \<Rightarrow> (error + int) \<times> ItemQuery" where
  "sqlCount d iq =
     (let selector = sqlCount_selector iq in
      (case Query d selector of
         Inl m \<Rightarrow> Inl (ErrDriver m)
       | Inr rows \<Rightarrow>
           (case rows of
              [] \<Rightarrow> Inl ErrNoRowsFound
            | r # _ \<Rightarrow>
                (case ScanInt d r of
                   Inl m \<Rightarrow> Inl (ErrFailedReadingCount m)
                 | Inr n \<Rightarrow> Inr n)),
       sql_touch selector iq))"

definition sqlExist :: "('r, 'e) driver \<Rightarrow> ItemQuery \<Rightarrow> (error + bool) \<times> ItemQuery" where
  "sqlExist d iq =
     (case sqlCount d iq of
        (Inl err, iq') \<Rightarrow> (Inl (ErrCheckExistence err), iq')
      | (Inr n, iq') \<Rightarrow> (Inr (n > 0), iq'))"

subsection \<open>Traversal terminal operations\<close>

text \<open>
  \<open>gremlinQuery\<close> works on a clone of the intermediate traversal, so these operations
  leave the builder as it is.
\<close>

definition gremlinAll_traversal :: "ItemQuery \<Rightarrow> Traversal" where
  "gremlinAll_traversal iq = gremlinQuery iq @ [ValueMapStep True]"

definition gremlinAll :: "('r, 'e) driver \<Rightarrow> ItemQuery \<Rightarrow> (error + Item list) \<times> ItemQuery" where
  "gremlinAll d iq =
     (case Exec d (gremlinAll_traversal iq) of
        Inl err \<Rightarrow> Inl err
      | Inr res \<Rightarrow> Items_FromResponse d res,
      iq)"

definition gremlinCount_traversal :: "ItemQuery \<Rightarrow> Traversal" where
  "gremlinCount_traversal iq = gremlinQuery iq @ [CountStep]"

definition gremlinCount :: "('r, 'e) driver \<Rightarrow> ItemQuery \<Rightarrow> (error + int) \<times> ItemQuery" where
  "gremlinCount d iq =
     (case Exec d (gremlinCount_traversal iq) of
        Inl err \<Rightarrow> Inl err
      | Inr res \<Rightarrow> ReadInt res,
      iq)"

definition gremlinExist_traversal :: "ItemQuery \<Rightarrow> Traversal" where
  "gremlinExist_traversal iq = gremlinQuery iq @ [HasNextStep]"

definition gremlinExist :: "('r, 'e) driver \<Rightarrow> ItemQuery \<Rightarrow> (error + bool) \<times> ItemQuery" where
  "gremlinExist d iq =
     (case Exec d (gremlinExist_traversal iq) of
        Inl err \<Rightarrow> Inl err
      | Inr res \<Rightarrow> ReadBool res,
      iq)"

subsection \<open>Dispatch on the dialect\<close>

definition All_items :: "('r, 'e) driver \<Rightarrow> ItemQuery \<Rightarrow> (error + Item list) \<times> ItemQuery" where
  "All_items d iq =
     (case Dialect d of
        MySQL \<Rightarrow> sqlAll d iq
      | SQLite \<Rightarrow> sqlAll d iq
      | Gremlin \<Rightarrow> gremlinAll d iq
      | OtherDialect _ \<Rightarrow> (Inl ErrUnsupportedDialect, iq))"

definition Count :: "('r, 'e) driver \<Rightarrow> ItemQuery \<Rightarrow> (error + int) \<times> ItemQuery" where
  "Count d iq =
     (case Dialect d of
        MySQL \<Rightarrow> sqlCount d iq
      | SQLite \<Rightarrow> sqlCount d iq
      | Gremlin \<Rightarrow> gremlinCount d iq
      | OtherDialect _ \<Rightarrow> (Inl ErrUnsupportedDialect, iq))"

definition Exist :: "('r, 'e) driver \<Rightarrow> ItemQuery \<Rightarrow> (error + bool) \<times> ItemQuery" where
  "Exist d iq =
     (case Dialect d of
        MySQL \<Rightarrow> sqlExist d iq
      | SQLite \<Rightarrow> sqlExist d iq
      | Gremlin \<Rightarrow> gremlinExist d iq
      | OtherDialect _ \<Rightarrow> (Inl ErrUnsupportedDialect, iq))"

subsection \<open>\<open>First\<close> and \<open>Only\<close>\<close>

definition First :: "('r, 'e) driver \<Rightarrow> ItemQuery \<Rightarrow> (error + Item) \<times> ItemQuery" where
  "First d iq =
     (case All_items d (Limit 1 iq) of
        (Inl err, iq') \<Rightarrow> (Inl err, iq')
      | (Inr is, iq') \<Rightarrow>
          (case is of
             [] \<Rightarrow> (Inl (ErrNotFound item_Label), iq')
           | i # _ \<Rightarrow> (Inr i, iq')))"

definition Only :: "('r, 'e) driver \<Rightarrow> ItemQuery \<Rightarrow> (error + Item) \<times> ItemQuery" where
  "Only d iq =
     (case All_items d (Limit 2 iq) of
        (Inl err, iq') \<Rightarrow> (Inl err, iq')
      | (Inr is, iq') \<Rightarrow>
          (case is of
             [i] \<Rightarrow> (Inr i, iq')
           | [] \<Rightarrow> (Inl (ErrNotFound item_Label), iq')
           | _ \<Rightarrow> (Inl (ErrNotSingular item_Label), iq')))"

section \<open>Builders in memory\<close>

text \<open>
  A builder is used through a pointer and its lists are Go slices: a slice is a window
  (\<open>len\<close> elements, room for \<open>cap\<close>) on a backing array, and two slices may share
  one array. The memory below makes this sharing explicit.
\<close>

subsection \<open>Slices\<close>

record slice =
  s_addr :: nat
  s_len :: nat
  s_cap :: nat

text \<open>
  The backing arrays by address (of each, the elements written so far), the next free
  address, and the capacity the runtime chooses when \<open>append\<close> must grow a slice of a
  given capacity to hold a given number of elements (never less than that number).
\<close>

record 'a mem =
  cells :: "nat \<Rightarrow> 'a list"
  next_addr :: nat
  grow :: "nat \<Rightarrow> nat \<Rightarrow> nat"

definition slice_elems :: "'a mem \<Rightarrow> slice \<Rightarrow> 'a list" where
  "slice_elems m s = take (s_len s) (cells m (s_addr s))"



subsection \<open>The heap of builders\<close>

record QueryObj =
  o_limit :: "int option"
  o_offset :: "int option"
  o_order :: slice
  o_unique :: slice
  o_predicates :: slice
  o_sql :: "Selector option"
  o_gremlin :: "Traversal option"

record Heap =
  objs :: "nat \<Rightarrow> QueryObj"
  next_obj :: nat
  order_mem :: "OrderFn mem"
  unique_mem :: "string mem"
  pred_mem :: "Predicate mem"

text \<open>The builder a pointer refers to, with its slices read.\<close>

definition deref :: "Heap \<Rightarrow> nat \<Rightarrow> ItemQuery" where
  "deref h p =
     (let ob = objs h p in
      \<lparr>limit = o_limit ob, offset = o_offset ob,
       order = slice_elems (order_mem h) (o_order ob),
       unique = slice_elems (unique_mem h) (o_unique ob),
       predicates = slice_elems (pred_mem h) (o_predicates ob),
       sql = o_sql ob, gremlin = o_gremlin ob\<rparr>)"






text \<open>
  A terminal operation reads the builder behind the pointer and leaves there the
  fields it has changed; it does not touch the slices.
\<close>

definition store_back :: "nat \<Rightarrow> ItemQuery \<Rightarrow> Heap \<Rightarrow> Heap" where
  "store_back p iq h =
     h\<lparr>objs := (objs h)(p := (objs h p)\<lparr>o_limit := limit iq, o_offset := offset iq,
                                          o_sql := sql iq, o_gremlin := gremlin iq\<rparr>)\<rparr>"

definition run_ptr :: "(ItemQuery \<Rightarrow> 'a \<times> ItemQuery) \<Rightarrow> nat \<Rightarrow> Heap \<Rightarrow> 'a \<times> Heap" where
  "run_ptr f p h = (case f (deref h p) of (r, iq') \<Rightarrow> (r, store_back p iq' h))"



section \<open>The graph of types and its resolution\<close>

subsection \<open>Loaded schemas\<close>

text \<open>
  An edge as the schema loader describes it (\<open>load.Edge\<close>): \<open>Ref\<close> is the
  association an inverse edge declares together with itself.
\<close>

datatype LEdge =
  LEdge (le_Name: string) (le_Type: string) (le_Unique: bool) (le_Required: bool)
        (le_Inverse: bool) (le_RefName: string) (le_Ref: "LEdge option") (le_Tag: string)

datatype FieldType =
    TypeBool | TypeTime | TypeString | TypeEnum | TypeFloat64
  | TypeInt | TypeInt8 | TypeInt16 | TypeInt32 | TypeInt64

record Column =
  c_Name :: string
  c_Type :: FieldType
  c_Unique :: bool
  c_Nullable :: bool
  c_Increment :: bool
  c_Default :: "string option"
  c_Enums :: "string list"

record LIndex =
  li_Name :: string
  li_Unique :: bool
  li_Columns :: "string list"

record Schema =
  s_Name :: string
  s_ID :: Column
  s_Fields :: "Column list"
  s_Edges :: "LEdge list"
  s_Indexes :: "LIndex list"

subsection \<open>Types, edges and relations\<close>

datatype Rel = Unk | O2O | O2M | M2O | M2M

record Relation =
  rel_Type :: Rel
  rel_Table :: string
  rel_Columns :: "string list"

text \<open>
  An edge of the graph. Its \<open>Type\<close> and \<open>Owner\<close> are pointers to nodes of the graph:
  a node is named by its position in \<open>Nodes\<close>.
\<close>

record Edge =
  e_Name :: string
  e_Type :: nat
  e_Owner :: nat
  e_Inverse :: string
  e_Unique :: bool
  e_Optional :: bool
  e_SelfRef :: bool
  e_StructTag :: string
  e_Rel :: Relation

record Type =
  t_Name :: string
  t_ID :: Column
  t_Fields :: "Column list"
  t_Edges :: "Edge list"
  t_Indexes :: "LIndex list"

record Graph =
  Nodes :: "Type list"

datatype graph_error =
    TypeDoesNotExist string
  | MissingReferenceName string string
  | ReferenceNameIsDerived string string
  | AssocInverseOnlySameType
  | EdgeMissingForInverse string string
  | RequiredInBothDirections string string string string
  | MismatchType string string string string string
  | InvalidSchema string
  | RuntimePanic string

text \<open>
  What the resolver takes from the rest of package \<open>gen\<close>: the naming functions
  (\<open>snake\<close>, the inflection rule \<open>Singularize\<close>, and the label and the table a type
  of a given name has), the constructor \<open>NewType\<close> and \<open>Type.AddIndex\<close>.
\<close>

record gen_env =
  snake :: "string \<Rightarrow> string"
  Singularize :: "string \<Rightarrow> string"
  Label :: "string \<Rightarrow> string"
  Table :: "string \<Rightarrow> string"
  NewType :: "Schema \<Rightarrow> graph_error + Type"
  AddIndex :: "LIndex \<Rightarrow> Type \<Rightarrow> graph_error + Type"

definition unk_Rel :: Relation where
  "unk_Rel = \<lparr>rel_Type = Unk, rel_Table = [], rel_Columns = []\<rparr>"

definition IsInverse :: "Edge \<Rightarrow> bool" where
  "IsInverse e \<longleftrightarrow> e_Inverse e \<noteq> []"

definition is_M2M :: "Edge \<Rightarrow> bool" where
  "is_M2M e \<longleftrightarrow> rel_Type (e_Rel e) = M2M"

text \<open>
  Modelled from the spec: \<open>Type.HasAssoc\<close> is not among the sources. It finds the
  forward counterpart of an inverse edge by name: the first edge of the type that has
  the name and is not itself an inverse edge; the result is its position.
\<close>

fun HasAssoc_from :: "nat \<Rightarrow> Edge list \<Rightarrow> string \<Rightarrow> nat option" where
  "HasAssoc_from k [] name = None"
| "HasAssoc_from k (e # es) name =
     (if name = e_Name e \<and> \<not> IsInverse e then Some k else HasAssoc_from (Suc k) es name)"

definition HasAssoc :: "Type \<Rightarrow> string \<Rightarrow> nat option" where
  "HasAssoc t name = HasAssoc_from 0 (t_Edges t) name"

text \<open>\<open>Graph.typ\<close>: the first node with the name.\<close>

fun typ_from :: "nat \<Rightarrow> Type list \<Rightarrow> string \<Rightarrow> nat option" where
  "typ_from k [] name = None"
| "typ_from k (n # ns) name = (if name = t_Name n then Some k else typ_from (Suc k) ns name)"

definition Graph_typ :: "Graph \<Rightarrow> string \<Rightarrow> nat option" where
  "Graph_typ g name = typ_from 0 (Nodes g) name"

text \<open>A loop whose body may fail: it stops at the first failure.\<close>

fun foldE :: "('a \<Rightarrow> 's \<Rightarrow> 'x + 's) \<Rightarrow> 'a list \<Rightarrow> 's \<Rightarrow> 'x + 's" where
  "foldE f [] s = Inr s"
| "foldE f (x # xs) s = (case f x s of Inl err \<Rightarrow> Inl err | Inr s' \<Rightarrow> foldE f xs s')"

definition get_edge :: "Graph \<Rightarrow> nat \<Rightarrow> nat \<Rightarrow> Edge" where
  "get_edge g i j = t_Edges (Nodes g ! i) ! j"

definition set_edge :: "nat \<Rightarrow> nat \<Rightarrow> Edge \<Rightarrow> Graph \<Rightarrow> Graph" where
  "set_edge i j e g =
     g\<lparr>Nodes := (Nodes g)[i := (Nodes g ! i)\<lparr>t_Edges := (t_Edges (Nodes g ! i))[j := e]\<rparr>]\<rparr>"

definition add_edges :: "nat \<Rightarrow> Edge list \<Rightarrow> Graph \<Rightarrow> Graph" where
  "add_edges i es g =
     g\<lparr>Nodes := (Nodes g)[i := (Nodes g ! i)\<lparr>t_Edges := t_Edges (Nodes g ! i) @ es\<rparr>]\<rparr>"

subsection \<open>\<open>addNode\<close>, \<open>addEdges\<close>, \<open>addIndexes\<close>\<close>

definition addNode :: "gen_env \<Rightarrow> Schema \<Rightarrow> Graph \<Rightarrow> graph_error + Graph" where
  "addNode env schema g =
     (case NewType env schema of
        Inl err \<Rightarrow> Inl err
      | Inr t \<Rightarrow> Inr (g\<lparr>Nodes := Nodes g @ [t]\<rparr>))"

definition addEdge :: "nat \<Rightarrow> LEdge \<Rightarrow> Graph \<Rightarrow> graph_error + Graph" where
  "addEdge t e g =
     (case Graph_typ g (le_Type e) of
        None \<Rightarrow> Inl (TypeDoesNotExist (le_Type e))
      | Some ty \<Rightarrow>
          if \<not> le_Inverse e then
            Inr (add_edges t
              [\<lparr>e_Name = le_Name e, e_Type = ty, e_Owner = t, e_Inverse = [],
                e_Unique = le_Unique e, e_Optional = (\<not> le_Required e), e_SelfRef = False,
                e_StructTag = le_Tag e, e_Rel = unk_Rel\<rparr>] g)
          else
            (case le_Ref e of
               None \<Rightarrow>
                 if le_RefName e = [] then
                   Inl (MissingReferenceName (t_Name (Nodes g ! t)) (le_Name e))
                 else
                   Inr (add_edges t
                     [\<lparr>e_Name = le_Name e, e_Type = ty, e_Owner = ty,
                       e_Inverse = le_RefName e, e_Unique = le_Unique e,
                       e_Optional = (\<not> le_Required e), e_SelfRef = False,
                       e_StructTag = le_Tag e, e_Rel = unk_Rel\<rparr>] g)
             | Some ref \<Rightarrow>
                 if le_RefName e \<noteq> [] then
                   Inl (ReferenceNameIsDerived (le_Name ref) (le_Name e))
                 else if le_Type ref \<noteq> t_Name (Nodes g ! t) then
                   Inl AssocInverseOnlySameType
                 else
                   Inr (add_edges t
                     [\<lparr>e_Name = le_Name e, e_Type = ty, e_Owner = t,
                       e_Inverse = le_Name ref, e_Unique = le_Unique e,
                       e_Optional = (\<not> le_Required e), e_SelfRef = False,
                       e_StructTag = le_Tag e, e_Rel = unk_Rel\<rparr>,
                      \<lparr>e_Name = le_Name ref, e_Type = ty, e_Owner = t,
                       e_Inverse = [], e_Unique = le_Unique ref,
                       e_Optional = (\<not> le_Required ref), e_SelfRef = False,
                       e_StructTag = le_Tag e, e_Rel = unk_Rel\<rparr>] g)))"

definition addEdges :: "Schema \<Rightarrow> Graph \<Rightarrow> graph_error + Graph" where
  "addEdges schema g =
     (case Graph_typ g (s_Name schema) of
        None \<Rightarrow> Inl (RuntimePanic ''nil pointer dereference'')
      | Some t \<Rightarrow> foldE (addEdge t) (s_Edges schema) g)"

definition addIndexes :: "gen_env \<Rightarrow> Schema \<Rightarrow> Graph \<Rightarrow> graph_error + Graph" where
  "addIndexes env schema g =
     (case Graph_typ g (s_Name schema) of
        None \<Rightarrow> Inl (RuntimePanic ''nil pointer dereference'')
      | Some t \<Rightarrow>
          foldE (\<lambda>idx g.
                   case AddIndex env idx (Nodes g ! t) of
                     Inl err \<Rightarrow> Inl err
                   | Inr t' \<Rightarrow> Inr (g\<lparr>Nodes := (Nodes g)[t := t']\<rparr>))
                (s_Indexes schema) g)"

subsection \<open>\<open>resolve\<close>\<close>

text \<open>
  One iteration of the loop of \<open>resolve\<close>, for the edge at position \<open>j\<close> of the node
  at position \<open>i\<close>. The edge and its reference are pointers: what is assigned to them
  is written into the graph.
\<close>

definition resolve_inverse :: "gen_env \<Rightarrow> nat \<Rightarrow> nat \<Rightarrow> Graph \<Rightarrow> graph_error + Graph" where
  "resolve_inverse env i j g =
     (let t = Nodes g ! i; e = get_edge g i j; ty = Nodes g ! e_Type e in
      case HasAssoc ty (e_Inverse e) of
        None \<Rightarrow> Inl (EdgeMissingForInverse (t_Name ty) (e_Name e))
      | Some k \<Rightarrow>
          (let ref = get_edge g (e_Type e) k in
           if \<not> e_Optional e \<and> \<not> e_Optional ref then
             Inl (RequiredInBothDirections (t_Name t) (e_Name e) (t_Name ty) (e_Name ref))
           else if e_Type ref \<noteq> i then
             Inl (MismatchType (e_Inverse e) (t_Name t) (e_Name e) (t_Name ty) (e_Name ref))
           else
             (let table = Table env (t_Name t);
                  column = snake env (e_Name e) @ ''_id'';
                  a = e_Unique ref; b = e_Unique e;
                  c1 = Label env (t_Name (Nodes g ! e_Owner ref)) @ ''_id'';
                  c2 = Label env (t_Name (Nodes g ! e_Type ref)) @ ''_id'';
                  c2 = (if c1 = c2 then Singularize env (e_Name e) @ ''_id'' else c2);
                  (et, rt, table, column) =
                    (if a \<and> b then (O2O, O2O, table, column)
                     else if \<not> a \<and> b then (M2O, O2M, table, column)
                     else if a \<and> \<not> b then
                       (O2M, M2O, Table env (t_Name ty), snake env (e_Name ref) @ ''_id'')
                     else (M2M, M2M, Label env (t_Name ty) @ ''_'' @ e_Name ref, column));
                  columns = (if et = M2M then [c1, c2] else [column]);
                  rel = (\<lambda>ty'. \<lparr>rel_Type = ty', rel_Table = table, rel_Columns = columns\<rparr>)
              in Inr (set_edge (e_Type e) k (ref\<lparr>e_Rel := rel rt\<rparr>)
                        (set_edge i j (e\<lparr>e_Rel := rel et\<rparr>) g)))))"

definition resolve_assoc :: "gen_env \<Rightarrow> nat \<Rightarrow> nat \<Rightarrow> Graph \<Rightarrow> Graph" where
  "resolve_assoc env i j g =
     (let t = Nodes g ! i; e = get_edge g i j;
          e = (if \<not> e_Unique e \<and> e_Type e = i then
                 e\<lparr>e_SelfRef := True,
                   e_Rel := \<lparr>rel_Type = M2M,
                             rel_Table = Label env (t_Name t) @ ''_'' @ e_Name e,
                             rel_Columns = rel_Columns (e_Rel e) @
                               [Label env (t_Name (Nodes g ! e_Owner e)) @ ''_id'',
                                Singularize env (e_Name e) @ ''_id'']\<rparr>\<rparr>
               else if e_Unique e \<and> e_Type e = i then
                 e\<lparr>e_SelfRef := True,
                   e_Rel := (e_Rel e)\<lparr>rel_Type := O2O, rel_Table := Table env (t_Name t)\<rparr>\<rparr>
               else if e_Unique e then
                 e\<lparr>e_Rel := (e_Rel e)\<lparr>rel_Type := M2O, rel_Table := Table env (t_Name t)\<rparr>\<rparr>
               else
                 e\<lparr>e_Rel := (e_Rel e)\<lparr>rel_Type := O2M,
                                       rel_Table := Table env (t_Name (Nodes g ! e_Type e))\<rparr>\<rparr>);
          e = (if \<not> is_M2M e then
                 e\<lparr>e_Rel := (e_Rel e)\<lparr>rel_Columns :=
                      [Label env (t_Name t) @ ''_'' @
                       snake env (Singularize env (e_Name e)) @ ''_id'']\<rparr>\<rparr>
               else e)
      in set_edge i j e g)"

definition resolve_edge :: "gen_env \<Rightarrow> nat \<Rightarrow> nat \<Rightarrow> Graph \<Rightarrow> graph_error + Graph" where
  "resolve_edge env i j g =
     (let e = get_edge g i j in
      if IsInverse e then resolve_inverse env i j g
      else if rel_Type (e_Rel e) = Unk then Inr (resolve_assoc env i j g)
      else Inr g)"

definition resolve :: "gen_env \<Rightarrow> nat \<Rightarrow> Graph \<Rightarrow> graph_error + Graph" where
  "resolve env i g = foldE (resolve_edge env i) [0 ..< length (t_Edges (Nodes g ! i))] g"

subsection \<open>\<open>NewGraph\<close>\<close>

definition NewGraph :: "gen_env \<Rightarrow> Schema list \<Rightarrow> graph_error + Graph" where
  "NewGraph env schemas =
     (case foldE (addNode env) schemas \<lparr>Nodes = []\<rparr> of
        Inl err \<Rightarrow> Inl err
      | Inr g \<Rightarrow>
     (case foldE addEdges schemas g of
        Inl err \<Rightarrow> Inl err
      | Inr g \<Rightarrow>
     (case foldE (resolve env) [0 ..< length (Nodes g)] g of
        Inl err \<Rightarrow> Inl err
      | Inr g \<Rightarrow> foldE (addIndexes env) schemas g)))"

section \<open>Deriving the tables\<close>

datatype ReferenceOption = NoAction | Restrict | Cascade | SetNull | SetDefault

text \<open>
  A foreign key points to the table it references; here it holds that table's name.
\<close>

record ForeignKey =
  fk_Symbol :: string
  fk_Columns :: "Column list"
  fk_RefTable :: string
  fk_RefColumns :: "Column list"
  fk_OnDelete :: ReferenceOption

record Index =
  idx_Name :: string
  idx_Unique :: bool
  idx_Columns :: "Column list"

record SchemaTable =
  tb_Name :: string
  tb_Columns :: "Column list"
  tb_PrimaryKey :: "Column list"
  tb_ForeignKeys :: "ForeignKey list"
  tb_Indexes :: "Index list"

definition int_Column :: "string \<Rightarrow> bool \<Rightarrow> bool \<Rightarrow> Column" where
  "int_Column name uniq nullable =
     \<lparr>c_Name = name, c_Type = TypeInt, c_Unique = uniq, c_Nullable = nullable,
      c_Increment = False, c_Default = None, c_Enums = []\<rparr>"

text \<open>
  Modelled from the spec: the methods of \<open>schema.Table\<close> are not among the sources.
  \<open>NewTable\<close> makes an empty table, \<open>AddPrimary\<close> appends a column that is also a
  primary key, \<open>AddColumn\<close> and \<open>AddForeignKey\<close> append, and \<open>AddIndex\<close> appends an
  index on the columns of the table that have the given names.
\<close>

definition schema_NewTable :: "string \<Rightarrow> SchemaTable" where
  "schema_NewTable name =
     \<lparr>tb_Name = name, tb_Columns = [], tb_PrimaryKey = [], tb_ForeignKeys = [],
      tb_Indexes = []\<rparr>"

definition AddPrimary :: "Column \<Rightarrow> SchemaTable \<Rightarrow> SchemaTable" where
  "AddPrimary c t = t\<lparr>tb_Columns := tb_Columns t @ [c], tb_PrimaryKey := tb_PrimaryKey t @ [c]\<rparr>"

definition AddColumn :: "Column \<Rightarrow> SchemaTable \<Rightarrow> SchemaTable" where
  "AddColumn c t = t\<lparr>tb_Columns := tb_Columns t @ [c]\<rparr>"

definition AddForeignKey :: "ForeignKey \<Rightarrow> SchemaTable \<Rightarrow> SchemaTable" where
  "AddForeignKey fk t = t\<lparr>tb_ForeignKeys := tb_ForeignKeys t @ [fk]\<rparr>"

definition Table_AddIndex :: "LIndex \<Rightarrow> SchemaTable \<Rightarrow> SchemaTable" where
  "Table_AddIndex idx t =
     t\<lparr>tb_Indexes := tb_Indexes t @
        [\<lparr>idx_Name = li_Name idx, idx_Unique = li_Unique idx,
          idx_Columns = concat (map (\<lambda>n. filter (\<lambda>c. c_Name c = n) (tb_Columns t))
                                   (li_Columns idx))\<rparr>]\<rparr>"

text \<open>
  The map \<open>tables\<close> from a table's name to the table of a node: the first loop stores
  the nodes in order, so a name leads to the last node with it. The tables of the nodes
  are kept in a list, in the order of the nodes, and a table is named by its position.
\<close>

fun lookup_table :: "gen_env \<Rightarrow> Type list \<Rightarrow> string \<Rightarrow> nat option" where
  "lookup_table env [] name = None"
| "lookup_table env (n # ns) name =
     (case lookup_table env ns name of
        Some k \<Rightarrow> Some (Suc k)
      | None \<Rightarrow> if Table env (t_Name n) = name then Some 0 else None)"

definition node_table :: "gen_env \<Rightarrow> Type \<Rightarrow> SchemaTable" where
  "node_table env n =
     fold AddColumn (t_Fields n) (AddPrimary (t_ID n) (schema_NewTable (Table env (t_Name n))))"

text \<open>
  The foreign key and its column that the cases \<open>O2O\<close>, \<open>O2M\<close> and \<open>M2O\<close> add to the
  table \<open>owner\<close>, referencing the table \<open>ref\<close>. A missing table is a \<open>nil\<close> pointer,
  a relation without a column and a table without primary key make the program panic.
\<close>

definition add_relation_column ::
  "Edge \<Rightarrow> bool \<Rightarrow> nat option \<Rightarrow> nat option \<Rightarrow> SchemaTable list \<Rightarrow> string + SchemaTable list" where
  "add_relation_column e uniq owner ref ents =
     (case rel_Columns (e_Rel e) of
        [] \<Rightarrow> Inl ''missing column for Relation.Table''
      | cname # _ \<Rightarrow>
     (case owner of
        None \<Rightarrow> Inl ''nil pointer dereference''
      | Some ow \<Rightarrow>
     (case ref of
        None \<Rightarrow> Inl ''nil pointer dereference''
      | Some rf \<Rightarrow>
          (let column = int_Column cname uniq True;
               ents = ents[ow := AddColumn column (ents ! ow)]
           in case tb_PrimaryKey (ents ! rf) of
                [] \<Rightarrow> Inl ''index out of range''
              | pk # _ \<Rightarrow>
                  Inr (ents[ow := AddForeignKey
                         \<lparr>fk_Symbol = tb_Name (ents ! ow) @ ''_'' @ tb_Name (ents ! rf) @ ''_'' @ e_Name e,
                          fk_Columns = [column], fk_RefTable = tb_Name (ents ! rf),
                          fk_RefColumns = [pk], fk_OnDelete = SetNull\<rparr>
                         (ents ! ow)])))))"

text \<open>The join table of the case \<open>M2M\<close>.\<close>

definition join_table ::
  "Edge \<Rightarrow> nat option \<Rightarrow> nat option \<Rightarrow> SchemaTable list \<Rightarrow> string + SchemaTable" where
  "join_table e t1 t2 ents =
     (case rel_Columns (e_Rel e) of
        n1 # n2 # _ \<Rightarrow>
          (case (t1, t2) of
             (Some i1, Some i2) \<Rightarrow>
               (case (tb_PrimaryKey (ents ! i1), tb_PrimaryKey (ents ! i2)) of
                  (pk1 # _, pk2 # _) \<Rightarrow>
                    (let c1 = int_Column n1 False False; c2 = int_Column n2 False False in
                     Inr \<lparr>tb_Name = rel_Table (e_Rel e), tb_Columns = [c1, c2],
                          tb_PrimaryKey = [c1, c2],
                          tb_ForeignKeys =
                            [\<lparr>fk_Symbol = rel_Table (e_Rel e) @ ''_'' @ c_Name c1,
                              fk_Columns = [c1], fk_RefTable = tb_Name (ents ! i1),
                              fk_RefColumns = [pk1], fk_OnDelete = Cascade\<rparr>,
                             \<lparr>fk_Symbol = rel_Table (e_Rel e) @ ''_'' @ c_Name c2,
                              fk_Columns = [c2], fk_RefTable = tb_Name (ents ! i2),
                              fk_RefColumns = [pk2], fk_OnDelete = Cascade\<rparr>],
                          tb_Indexes = []\<rparr>)
                | _ \<Rightarrow> Inl ''index out of range'')
           | _ \<Rightarrow> Inl ''nil pointer dereference'')
      | _ \<Rightarrow> Inl ''index out of range'')"

text \<open>
  The body of the second loop of \<open>Tables\<close> for one edge of the node \<open>n\<close>; the state
  is the tables of the nodes and the join tables appended so far.
\<close>

definition edge_tables ::
  "gen_env \<Rightarrow> Graph \<Rightarrow> Type \<Rightarrow> Edge \<Rightarrow> SchemaTable list \<times> SchemaTable list \<Rightarrow>
   string + SchemaTable list \<times> SchemaTable list" where
  "edge_tables env g n e st =
     (let tables = lookup_table env (Nodes g); ents = fst st; joins = snd st in
      if IsInverse e then Inr st
      else
        (case rel_Type (e_Rel e) of
           O2O \<Rightarrow>
             (case add_relation_column e True (tables (rel_Table (e_Rel e)))
                     (tables (Table env (t_Name n))) ents of
                Inl err \<Rightarrow> Inl err | Inr ents' \<Rightarrow> Inr (ents', joins))
         | O2M \<Rightarrow>
             (case add_relation_column e False (tables (rel_Table (e_Rel e)))
                     (tables (Table env (t_Name n))) ents of
                Inl err \<Rightarrow> Inl err | Inr ents' \<Rightarrow> Inr (ents', joins))
         | M2O \<Rightarrow>
             (case add_relation_column e False (tables (rel_Table (e_Rel e)))
                     (tables (Table env (t_Name (Nodes g ! e_Type e)))) ents of
                Inl err \<Rightarrow> Inl err | Inr ents' \<Rightarrow> Inr (ents', joins))
         | M2M \<Rightarrow>
             (case join_table e (tables (Table env (t_Name n)))
                     (tables (Table env (t_Name (Nodes g ! e_Type e)))) ents of
                Inl err \<Rightarrow> Inl err | Inr jt \<Rightarrow> Inr (ents, joins @ [jt]))
         | Unk \<Rightarrow> Inr st))"

definition node_indexes :: "gen_env \<Rightarrow> Graph \<Rightarrow> Type \<Rightarrow> SchemaTable list \<Rightarrow> string + SchemaTable list" where
  "node_indexes env g n ents =
     (case lookup_table env (Nodes g) (Table env (t_Name n)) of
        None \<Rightarrow> Inl ''nil pointer dereference''
      | Some k \<Rightarrow> Inr (ents[k := fold Table_AddIndex (t_Indexes n) (ents ! k)]))"

definition Tables :: "gen_env \<Rightarrow> Graph \<Rightarrow> string + SchemaTable list" where
  "Tables env g =
     (let ents = map (node_table env) (Nodes g) in
      case foldE (\<lambda>n. foldE (edge_tables env g n) (t_Edges n)) (Nodes g) (ents, []) of
        Inl err \<Rightarrow> Inl err
      | Inr (ents, joins) \<Rightarrow>
          (case foldE (node_indexes env g) (Nodes g) ents of
             Inl err \<Rightarrow> Inl err
           | Inr ents \<Rightarrow> Inr (ents @ joins)))"

section \<open>The generated schema of the integration package\<close>

text \<open>
  The tables of package \<open>migrate\<close> as they were generated: the columns of each table,
  then the table, and the list \<open>Tables\<close>. \<open>init\<close> sets the \<open>RefTable\<close> of every
  foreign key; it is written into the foreign key here.
\<close>

definition CardsColumns :: "Column list" where
  "CardsColumns =
     [\<lparr>c_Name = ''id'', c_Type = TypeInt, c_Unique = False, c_Nullable = False,
      c_Increment = True, c_Default = None, c_Enums = []\<rparr>,
      \<lparr>c_Name = ''created_at'', c_Type = TypeTime, c_Unique = False, c_Nullable = False,
      c_Increment = False, c_Default = None, c_Enums = []\<rparr>,
      \<lparr>c_Name = ''updated_at'', c_Type = TypeTime, c_Unique = False, c_Nullable = False,
      c_Increment = False, c_Default = None, c_Enums = []\<rparr>,
      \<lparr>c_Name = ''number'', c_Type = TypeString, c_Unique = False, c_Nullable = False,
      c_Increment = False, c_Default = None, c_Enums = []\<rparr>,
      \<lparr>c_Name = ''owner_id'', c_Type = TypeInt, c_Unique = True, c_Nullable = True,
      c_Increment = False, c_Default = None, c_Enums = []\<rparr>]"

definition CommentsColumns :: "Column list" where
  "CommentsColumns =
     [\<lparr>c_Name = ''id'', c_Type = TypeInt, c_Unique = False, c_Nullable = False,
      c_Increment = True, c_Default = None, c_Enums = []\<rparr>,
      \<lparr>c_Name = ''unique_int'', c_Type = TypeInt, c_Unique = True, c_Nullable = False,
      c_Increment = False, c_Default = None, c_Enums = []\<rparr>,
      \<lparr>c_Name = ''unique_float'', c_Type = TypeFloat64, c_Unique = True, c_Nullable = False,
      c_Increment = False, c_Default = None, c_Enums = []\<rparr>,
      \<lparr>c_Name = ''nillable_int'', c_Type = TypeInt, c_Unique = False, c_Nullable = True,
      c_Increment = False, c_Default = None, c_Enums = []\<rparr>]"

definition FieldTypesColumns :: "Column list" where
  "FieldTypesColumns =
     [\<lparr>c_Name = ''id'', c_Type = TypeInt, c_Unique = False, c_Nullable = False,
      c_Increment = True, c_Default = None, c_Enums = []\<rparr>,
      \<lparr>c_Name = ''int'', c_Type = TypeInt, c_Unique = False, c_Nullable = False,
      c_Increment = False, c_Default = None, c_Enums = []\<rparr>,
      \<lparr>c_Name = ''int8'', c_Type = TypeInt8, c_Unique = False, c_Nullable = False,
      c_Increment = False, c_Default = None, c_Enums = []\<rparr>,
      \<lparr>c_Name = ''int16'', c_Type = TypeInt16, c_Unique = False, c_Nullable = False,
      c_Increment = False, c_Default = None, c_Enums = []\<rparr>,
      \<lparr>c_Name = ''int32'', c_Type = TypeInt32, c_Unique = False, c_Nullable = False,
      c_Increment = False, c_Default = None, c_Enums = []\<rparr>,
      \<lparr>c_Name = ''int64'', c_Type = TypeInt64, c_Unique = False, c_Nullable = False,
      c_Increment = False, c_Default = None, c_Enums = []\<rparr>,
      \<lparr>c_Name = ''optional_int'', c_Type = TypeInt, c_Unique = False, c_Nullable = True,
      c_Increment = False, c_Default = None, c_Enums = []\<rparr>,
      \<lparr>c_Name = ''optional_int8'', c_Type = TypeInt8, c_Unique = False, c_Nullable = True,
      c_Increment = False, c_Default = None, c_Enums = []\<rparr>,
      \<lparr>c_Name = ''optional_int16'', c_Type = TypeInt16, c_Unique = False, c_Nullable = True,
      c_Increment = False, c_Default = None, c_Enums = []\<rparr>,
      \<lparr>c_Name = ''optional_int32'', c_Type = TypeInt32, c_Unique = False, c_Nullable = True,
      c_Increment = False, c_Default = None, c_Enums = []\<rparr>,
      \<lparr>c_Name = ''optional_int64'', c_Type = TypeInt64, c_Unique = False, c_Nullable = True,
      c_Increment = False, c_Default = None, c_Enums = []\<rparr>,
      \<lparr>c_Name = ''nillable_int'', c_Type = TypeInt, c_Unique = False, c_Nullable = True,
      c_Increment = False, c_Default = None, c_Enums = []\<rparr>,
      \<lparr>c_Name = ''nillable_int8'', c_Type = TypeInt8, c_Unique = False, c_Nullable = True,
      c_Increment = False, c_Default = None, c_Enums = []\<rparr>,
      \<lparr>c_Name = ''nillable_int16'', c_Type = TypeInt16, c_Unique = False, c_Nullable = True,
      c_Increment = False, c_Default = None, c_Enums = []\<rparr>,
      \<lparr>c_Name = ''nillable_int32'', c_Type = TypeInt32, c_Unique = False, c_Nullable = True,
      c_Increment = False, c_Default = None, c_Enums = []\<rparr>,
      \<lparr>c_Name = ''nillable_int64'', c_Type = TypeInt64, c_Unique = False, c_Nullable = True,
      c_Increment = False, c_Default = None, c_Enums = []\<rparr>,
      \<lparr>c_Name = ''validate_optional_int32'', c_Type = TypeInt32, c_Unique = False, c_Nullable = True,
      c_Increment = False, c_Default = None, c_Enums = []\<rparr>,
      \<lparr>c_Name = ''state'', c_Type = TypeEnum, c_Unique = False, c_Nullable = True,
      c_Increment = False, c_Default = None, c_Enums = [''on'', ''off'']\<rparr>]"

definition FilesColumns :: "Column list" where
  "FilesColumns =
     [\<lparr>c_Name = ''id'', c_Type = TypeInt, c_Unique = False, c_Nullable = False,
      c_Increment = True, c_Default = None, c_Enums = []\<rparr>,
      \<lparr>c_Name = ''size'', c_Type = TypeInt, c_Unique = False, c_Nullable = False,
      c_Increment = False, c_Default = Some ''file.DefaultSize'', c_Enums = []\<rparr>,
      \<lparr>c_Name = ''name'', c_Type = TypeString, c_Unique = False, c_Nullable = False,
      c_Increment = False, c_Default = None, c_Enums = []\<rparr>,
      \<lparr>c_Name = ''user'', c_Type = TypeString, c_Unique = False, c_Nullable = True,
      c_Increment = False, c_Default = None, c_Enums = []\<rparr>,
      \<lparr>c_Name = ''group'', c_Type = TypeString, c_Unique = False, c_Nullable = True,
      c_Increment = False, c_Default = None, c_Enums = []\<rparr>,
      \<lparr>c_Name = ''type_id'', c_Type = TypeInt, c_Unique = False, c_Nullable = True,
      c_Increment = False, c_Default = None, c_Enums = []\<rparr>,
      \<lparr>c_Name = ''group_file_id'', c_Type = TypeInt, c_Unique = False, c_Nullable = True,
      c_Increment = False, c_Default = None, c_Enums = []\<rparr>,
      \<lparr>c_Name = ''owner_id'', c_Type = TypeInt, c_Unique = False, c_Nullable = True,
      c_Increment = False, c_Default = None, c_Enums = []\<rparr>]"

definition FileTypesColumns :: "Column list" where
  "FileTypesColumns =
     [\<lparr>c_Name = ''id'', c_Type = TypeInt, c_Unique = False, c_Nullable = False,
      c_Increment = True, c_Default = None, c_Enums = []\<rparr>,
      \<lparr>c_Name = ''name'', c_Type = TypeString, c_Unique = True, c_Nullable = False,
      c_Increment = False, c_Default = None, c_Enums = []\<rparr>]"

definition GroupsColumns :: "Column list" where
  "GroupsColumns =
     [\<lparr>c_Name = ''id'', c_Type = TypeInt, c_Unique = False, c_Nullable = False,
      c_Increment = True, c_Default = None, c_Enums = []\<rparr>,
      \<lparr>c_Name = ''active'', c_Type = TypeBool, c_Unique = False, c_Nullable = False,
      c_Increment = False, c_Default = Some ''group.DefaultActive'', c_Enums = []\<rparr>,
      \<lparr>c_Name = ''expire'', c_Type = TypeTime, c_Unique = False, c_Nullable = False,
      c_Increment = False, c_Default = None, c_Enums = []\<rparr>,
      \<lparr>c_Name = ''type'', c_Type = TypeString, c_Unique = False, c_Nullable = True,
      c_Increment = False, c_Default = None, c_Enums = []\<rparr>,
      \<lparr>c_Name = ''max_users'', c_Type = TypeInt, c_Unique = False, c_Nullable = True,
      c_Increment = False, c_Default = Some ''group.DefaultMaxUsers'', c_Enums = []\<rparr>,
      \<lparr>c_Name = ''name'', c_Type = TypeString, c_Unique = False, c_Nullable = False,
      c_Increment = False, c_Default = None, c_Enums = []\<rparr>,
      \<lparr>c_Name = ''info_id'', c_Type = TypeInt, c_Unique = False, c_Nullable = True,
      c_Increment = False, c_Default = None, c_Enums = []\<rparr>]"

definition GroupInfosColumns :: "Column list" where
  "GroupInfosColumns =
     [\<lparr>c_Name = ''id'', c_Type = TypeInt, c_Unique = False, c_Nullable = False,
      c_Increment = True, c_Default = None, c_Enums = []\<rparr>,
      \<lparr>c_Name = ''desc'', c_Type = TypeString, c_Unique = False, c_Nullable = False,
      c_Increment = False, c_Default = None, c_Enums = []\<rparr>,
      \<lparr>c_Name = ''max_users'', c_Type = TypeInt, c_Unique = False, c_Nullable = False,
      c_Increment = False, c_Default = Some ''groupinfo.DefaultMaxUsers'', c_Enums = []\<rparr>]"

definition ItemsColumns :: "Column list" where
  "ItemsColumns =
     [\<lparr>c_Name = ''id'', c_Type = TypeInt, c_Unique = False, c_Nullable = False,
      c_Increment = True, c_Default = None, c_Enums = []\<rparr>]"

definition NodesColumns :: "Column list" where
  "NodesColumns =
     [\<lparr>c_Name = ''id'', c_Type = TypeInt, c_Unique = False, c_Nullable = False,
      c_Increment = True, c_Default = None, c_Enums = []\<rparr>,
      \<lparr>c_Name = ''value'', c_Type = TypeInt, c_Unique = False, c_Nullable = True,
      c_Increment = False, c_Default = None, c_Enums = []\<rparr>,
      \<lparr>c_Name = ''prev_id'', c_Type = TypeInt, c_Unique = True, c_Nullable = True,
      c_Increment = False, c_Default = None, c_Enums = []\<rparr>]"

definition PetsColumns :: "Column list" where
  "PetsColumns =
     [\<lparr>c_Name = ''id'', c_Type = TypeInt, c_Unique = False, c_Nullable = False,
      c_Increment = True, c_Default = None, c_Enums = []\<rparr>,
      \<lparr>c_Name = ''name'', c_Type = TypeString, c_Unique = False, c_Nullable = False,
      c_Increment = False, c_Default = None, c_Enums = []\<rparr>,
      \<lparr>c_Name = ''owner_id'', c_Type = TypeInt, c_Unique = False, c_Nullable = True,
      c_Increment = False, c_Default = None, c_Enums = []\<rparr>,
      \<lparr>c_Name = ''team_id'', c_Type = TypeInt, c_Unique = True, c_Nullable = True,
      c_Increment = False, c_Default = None, c_Enums = []\<rparr>]"

definition UsersColumns :: "Column list" where
  "UsersColumns =
     [\<lparr>c_Name = ''id'', c_Type = TypeInt, c_Unique = False, c_Nullable = False,
      c_Increment = True, c_Default = None, c_Enums = []\<rparr>,
      \<lparr>c_Name = ''age'', c_Type = TypeInt, c_Unique = False, c_Nullable = False,
      c_Increment = False, c_Default = None, c_Enums = []\<rparr>,
      \<lparr>c_Name = ''name'', c_Type = TypeString, c_Unique = False, c_Nullable = False,
      c_Increment = False, c_Default = None, c_Enums = []\<rparr>,
      \<lparr>c_Name = ''last'', c_Type = TypeString, c_Unique = False, c_Nullable = False,
      c_Increment = False, c_Default = Some ''user.DefaultLast'', c_Enums = []\<rparr>,
      \<lparr>c_Name = ''nickname'', c_Type = TypeString, c_Unique = True, c_Nullable = True,
      c_Increment = False, c_Default = None, c_Enums = []\<rparr>,
      \<lparr>c_Name = ''phone'', c_Type = TypeString, c_Unique = True, c_Nullable = True,
      c_Increment = False, c_Default = None, c_Enums = []\<rparr>,
      \<lparr>c_Name = ''group_blocked_id'', c_Type = TypeInt, c_Unique = False, c_Nullable = True,
      c_Increment = False, c_Default = None, c_Enums = []\<rparr>,
      \<lparr>c_Name = ''user_spouse_id'', c_Type = TypeInt, c_Unique = True, c_Nullable = True,
      c_Increment = False, c_Default = None, c_Enums = []\<rparr>,
      \<lparr>c_Name = ''parent_id'', c_Type = TypeInt, c_Unique = False, c_Nullable = True,
      c_Increment = False, c_Default = None, c_Enums = []\<rparr>]"

definition UserGroupsColumns :: "Column list" where
  "UserGroupsColumns =
     [\<lparr>c_Name = ''user_id'', c_Type = TypeInt, c_Unique = False, c_Nullable = False,
      c_Increment = False, c_Default = None, c_Enums = []\<rparr>,
      \<lparr>c_Name = ''group_id'', c_Type = TypeInt, c_Unique = False, c_Nullable = False,
      c_Increment = False, c_Default = None, c_Enums = []\<rparr>]"

definition UserFriendsColumns :: "Column list" where
  "UserFriendsColumns =
     [\<lparr>c_Name = ''user_id'', c_Type = TypeInt, c_Unique = False, c_Nullable = False,
      c_Increment = False, c_Default = None, c_Enums = []\<rparr>,
      \<lparr>c_Name = ''friend_id'', c_Type = TypeInt, c_Unique = False, c_Nullable = False,
      c_Increment = False, c_Default = None, c_Enums = []\<rparr>]"

definition UserFollowingColumns :: "Column list" where
  "UserFollowingColumns =
     [\<lparr>c_Name = ''user_id'', c_Type = TypeInt, c_Unique = False, c_Nullable = False,
      c_Increment = False, c_Default = None, c_Enums = []\<rparr>,
      \<lparr>c_Name = ''follower_id'', c_Type = TypeInt, c_Unique = False, c_Nullable = False,
      c_Increment = False, c_Default = None, c_Enums = []\<rparr>]"

definition CardsTable :: SchemaTable where
  "CardsTable =
     \<lparr>tb_Name = ''cards'', tb_Columns = CardsColumns,
      tb_PrimaryKey = [CardsColumns ! 0],
      tb_ForeignKeys =
        [\<lparr>fk_Symbol = ''cards_users_card'', fk_Columns = [CardsColumns ! 4],
         fk_RefTable = ''users'', fk_RefColumns = [UsersColumns ! 0],
         fk_OnDelete = SetNull\<rparr>],
      tb_Indexes =
        []\<rparr>"

definition CommentsTable :: SchemaTable where
  "CommentsTable =
     \<lparr>tb_Name = ''comments'', tb_Columns = CommentsColumns,
      tb_PrimaryKey = [CommentsColumns ! 0],
      tb_ForeignKeys =
        [],
      tb_Indexes =
        []\<rparr>"

definition FieldTypesTable :: SchemaTable where
  "FieldTypesTable =
     \<lparr>tb_Name = ''field_types'', tb_Columns = FieldTypesColumns,
      tb_PrimaryKey = [FieldTypesColumns ! 0],
      tb_ForeignKeys =
        [],
      tb_Indexes =
        []\<rparr>"

definition FilesTable :: SchemaTable where
  "FilesTable =
     \<lparr>tb_Name = ''files'', tb_Columns = FilesColumns,
      tb_PrimaryKey = [FilesColumns ! 0],
      tb_ForeignKeys =
        [\<lparr>fk_Symbol = ''files_file_types_files'', fk_Columns = [FilesColumns ! 5],
         fk_RefTable = ''file_types'', fk_RefColumns = [FileTypesColumns ! 0],
         fk_OnDelete = SetNull\<rparr>,
         \<lparr>fk_Symbol = ''files_groups_files'', fk_Columns = [FilesColumns ! 6],
         fk_RefTable = ''groups'', fk_RefColumns = [GroupsColumns ! 0],
         fk_OnDelete = SetNull\<rparr>,
         \<lparr>fk_Symbol = ''files_users_files'', fk_Columns = [FilesColumns ! 7],
         fk_RefTable = ''users'', fk_RefColumns = [UsersColumns ! 0],
         fk_OnDelete = SetNull\<rparr>],
      tb_Indexes =
        [\<lparr>idx_Name = ''name_size'', idx_Unique = False,
         idx_Columns = [FilesColumns ! 2, FilesColumns ! 1]\<rparr>,
         \<lparr>idx_Name = ''name_user'', idx_Unique = True,
         idx_Columns = [FilesColumns ! 2, FilesColumns ! 3]\<rparr>,
         \<lparr>idx_Name = ''name_owner_id_type_id'', idx_Unique = True,
         idx_Columns = [FilesColumns ! 2, FilesColumns ! 7, FilesColumns ! 5]\<rparr>]\<rparr>"

definition FileTypesTable :: SchemaTable where
  "FileTypesTable =
     \<lparr>tb_Name = ''file_types'', tb_Columns = FileTypesColumns,
      tb_PrimaryKey = [FileTypesColumns ! 0],
      tb_ForeignKeys =
        [],
      tb_Indexes =
        []\<rparr>"

definition GroupsTable :: SchemaTable where
  "GroupsTable =
     \<lparr>tb_Name = ''groups'', tb_Columns = GroupsColumns,
      tb_PrimaryKey = [GroupsColumns ! 0],
      tb_ForeignKeys =
        [\<lparr>fk_Symbol = ''groups_group_infos_info'', fk_Columns = [GroupsColumns ! 6],
         fk_RefTable = ''group_infos'', fk_RefColumns = [GroupInfosColumns ! 0],
         fk_OnDelete = SetNull\<rparr>],
      tb_Indexes =
        []\<rparr>"

definition GroupInfosTable :: SchemaTable where
  "GroupInfosTable =
     \<lparr>tb_Name = ''group_infos'', tb_Columns = GroupInfosColumns,
      tb_PrimaryKey = [GroupInfosColumns ! 0],
      tb_ForeignKeys =
        [],
      tb_Indexes =
        []\<rparr>"

definition ItemsTable :: SchemaTable where
  "ItemsTable =
     \<lparr>tb_Name = ''items'', tb_Columns = ItemsColumns,
      tb_PrimaryKey = [ItemsColumns ! 0],
      tb_ForeignKeys =
        [],
      tb_Indexes =
        []\<rparr>"

definition NodesTable :: SchemaTable where
  "NodesTable =
     \<lparr>tb_Name = ''nodes'', tb_Columns = NodesColumns,
      tb_PrimaryKey = [NodesColumns ! 0],
      tb_ForeignKeys =
        [\<lparr>fk_Symbol = ''nodes_nodes_next'', fk_Columns = [NodesColumns ! 2],
         fk_RefTable = ''nodes'', fk_RefColumns = [NodesColumns ! 0],
         fk_OnDelete = SetNull\<rparr>],
      tb_Indexes =
        []\<rparr>"

definition PetsTable :: SchemaTable where
  "PetsTable =
     \<lparr>tb_Name = ''pets'', tb_Columns = PetsColumns,
      tb_PrimaryKey = [PetsColumns ! 0],
      tb_ForeignKeys =
        [\<lparr>fk_Symbol = ''pets_users_pets'', fk_Columns = [PetsColumns ! 2],
         fk_RefTable = ''users'', fk_RefColumns = [UsersColumns ! 0],
         fk_OnDelete = SetNull\<rparr>,
         \<lparr>fk_Symbol = ''pets_users_team'', fk_Columns = [PetsColumns ! 3],
         fk_RefTable = ''users'', fk_RefColumns = [UsersColumns ! 0],
         fk_OnDelete = SetNull\<rparr>],
      tb_Indexes =
        []\<rparr>"

definition UsersTable :: SchemaTable where
  "UsersTable =
     \<lparr>tb_Name = ''users'', tb_Columns = UsersColumns,
      tb_PrimaryKey = [UsersColumns ! 0],
      tb_ForeignKeys =
        [\<lparr>fk_Symbol = ''users_groups_blocked'', fk_Columns = [UsersColumns ! 6],
         fk_RefTable = ''groups'', fk_RefColumns = [GroupsColumns ! 0],
         fk_OnDelete = SetNull\<rparr>,
         \<lparr>fk_Symbol = ''users_users_spouse'', fk_Columns = [UsersColumns ! 7],
         fk_RefTable = ''users'', fk_RefColumns = [UsersColumns ! 0],
         fk_OnDelete = SetNull\<rparr>,
         \<lparr>fk_Symbol = ''users_users_parent'', fk_Columns = [UsersColumns ! 8],
         fk_RefTable = ''users'', fk_RefColumns = [UsersColumns ! 0],
         fk_OnDelete = SetNull\<rparr>],
      tb_Indexes =
        []\<rparr>"

definition UserGroupsTable :: SchemaTable where
  "UserGroupsTable =
     \<lparr>tb_Name = ''user_groups'', tb_Columns = UserGroupsColumns,
      tb_PrimaryKey = [UserGroupsColumns ! 0, UserGroupsColumns ! 1],
      tb_ForeignKeys =
        [\<lparr>fk_Symbol = ''user_groups_user_id'', fk_Columns = [UserGroupsColumns ! 0],
         fk_RefTable = ''users'', fk_RefColumns = [UsersColumns ! 0],
         fk_OnDelete = Cascade\<rparr>,
         \<lparr>fk_Symbol = ''user_groups_group_id'', fk_Columns = [UserGroupsColumns ! 1],
         fk_RefTable = ''groups'', fk_RefColumns = [GroupsColumns ! 0],
         fk_OnDelete = Cascade\<rparr>],
      tb_Indexes =
        []\<rparr>"

definition UserFriendsTable :: SchemaTable where
  "UserFriendsTable =
     \<lparr>tb_Name = ''user_friends'', tb_Columns = UserFriendsColumns,
      tb_PrimaryKey = [UserFriendsColumns ! 0, UserFriendsColumns ! 1],
      tb_ForeignKeys =
        [\<lparr>fk_Symbol = ''user_friends_user_id'', fk_Columns = [UserFriendsColumns ! 0],
         fk_RefTable = ''users'', fk_RefColumns = [UsersColumns ! 0],
         fk_OnDelete = Cascade\<rparr>,
         \<lparr>fk_Symbol = ''user_friends_friend_id'', fk_Columns = [UserFriendsColumns ! 1],
         fk_RefTable = ''users'', fk_RefColumns = [UsersColumns ! 0],
         fk_OnDelete = Cascade\<rparr>],
      tb_Indexes =
        []\<rparr>"

definition UserFollowingTable :: SchemaTable where
  "UserFollowingTable =
     \<lparr>tb_Name = ''user_following'', tb_Columns = UserFollowingColumns,
      tb_PrimaryKey = [UserFollowingColumns ! 0, UserFollowingColumns ! 1],
      tb_ForeignKeys =
        [\<lparr>fk_Symbol = ''user_following_user_id'', fk_Columns = [UserFollowingColumns ! 0],
         fk_RefTable = ''users'', fk_RefColumns = [UsersColumns ! 0],
         fk_OnDelete = Cascade\<rparr>,
         \<lparr>fk_Symbol = ''user_following_follower_id'', fk_Columns = [UserFollowingColumns ! 1],
         fk_RefTable = ''users'', fk_RefColumns = [UsersColumns ! 0],
         fk_OnDelete = Cascade\<rparr>],
      tb_Indexes =
        []\<rparr>"

definition generated_Tables :: "SchemaTable list" where
  "generated_Tables =
     [CardsTable,
      CommentsTable,
      FieldTypesTable,
      FilesTable,
      FileTypesTable,
      GroupsTable,
      GroupInfosTable,
      ItemsTable,
      NodesTable,
      PetsTable,
      UsersTable,
      UserGroupsTable,
      UserFriendsTable,
      UserFollowingTable]"

section \<open>A naming environment for the examples\<close>

text \<open>
  Names as the generated packages show them: the label of a type is its name in snake
  case (\<open>file\<close>, \<open>file_type\<close>), its table the plural of the label (\<open>files\<close>,
  \<open>group_infos\<close>), and the singular of an edge's name lacks the final \<open>s\<close>
  (\<open>friends\<close> gives \<open>friend_id\<close>, \<open>followers\<close> gives \<open>follower_id\<close>). This is
  right for names with a regular plural in which no two capitals follow each other,
  which is all the examples use.
\<close>

definition lower_char :: "char \<Rightarrow> char" where
  "lower_char c =
     (case map_of (zip ''ABCDEFGHIJKLMNOPQRSTUVWXYZ'' ''abcdefghijklmnopqrstuvwxyz'') c of
        None \<Rightarrow> c
      | Some l \<Rightarrow> l)"

fun snake_from :: "bool \<Rightarrow> string \<Rightarrow> string" where
  "snake_from prev [] = []"
| "snake_from prev (c # cs) =
     (if lower_char c \<noteq> c \<and> prev then CHR ''_'' # lower_char c # snake_from False cs
      else lower_char c # snake_from (lower_char c = c) cs)"

definition snake_case :: "string \<Rightarrow> string" where
  "snake_case s = snake_from False s"

definition drop_final_s :: "string \<Rightarrow> string" where
  "drop_final_s s = (if s \<noteq> [] \<and> last s = CHR ''s'' then butlast s else s)"

definition bare_type :: "Schema \<Rightarrow> Type" where
  "bare_type schema =
     \<lparr>t_Name = s_Name schema, t_ID = s_ID schema, t_Fields = s_Fields schema,
      t_Edges = [], t_Indexes = []\<rparr>"

definition example_env :: gen_env where
  "example_env =
     \<lparr>snake = snake_case,
      Singularize = drop_final_s,
      Label = snake_case,
      Table = (\<lambda>n. snake_case n @ ''s''),
      NewType = (\<lambda>schema. Inr (bare_type schema)),
      AddIndex = (\<lambda>idx t. Inr (t\<lparr>t_Indexes := t_Indexes t @ [idx]\<rparr>))\<rparr>"

definition id_Column :: Column where
  "id_Column =
     \<lparr>c_Name = ''id'', c_Type = TypeInt, c_Unique = False, c_Nullable = False,
      c_Increment = True, c_Default = None, c_Enums = []\<rparr>"

text \<open>An association edge and an inverse edge of a loaded schema.\<close>

definition edge_To :: "string \<Rightarrow> string \<Rightarrow> bool \<Rightarrow> LEdge" where
  "edge_To name ty uniq = LEdge name ty uniq False False [] None []"

definition edge_From :: "string \<Rightarrow> string \<Rightarrow> bool \<Rightarrow> string \<Rightarrow> LEdge" where
  "edge_From name ty uniq ref = LEdge name ty uniq False True ref None []"

definition edge_To_From :: "string \<Rightarrow> bool \<Rightarrow> string \<Rightarrow> bool \<Rightarrow> string \<Rightarrow> LEdge" where
  "edge_To_From assoc assoc_uniq name uniq ty =
     LEdge name ty uniq False True [] (Some (LEdge assoc ty assoc_uniq False False [] None [])) []"

definition entity :: "string \<Rightarrow> LEdge list \<Rightarrow> Schema" where
  "entity name es =
     \<lparr>s_Name = name, s_ID = id_Column, s_Fields = [], s_Edges = es, s_Indexes = []\<rparr>"

section \<open>Builders for the examples\<close>

text \<open>
  A predicate that adds one condition, in either dialect, and the builder as the client
  creates it: nothing set.
\<close>

definition has_item :: "string \<Rightarrow> Predicate" where
  "has_item c =
     \<lparr>psql = (\<lambda>s. s\<lparr>sel_where := sel_where s @ [c]\<rparr>),
      pgremlin = (\<lambda>t. t @ [HasStep c])\<rparr>"

definition new_query :: ItemQuery where
  "new_query =
     \<lparr>limit = None, offset = None, order = [], unique = [], predicates = [],
      sql = None, gremlin = None\<rparr>"

section \<open>Notions used to state the properties\<close>

text \<open>
  The columns a count is taken over: the configured unique columns, or the identifier.
\<close>

definition count_columns :: "ItemQuery \<Rightarrow> string list" where
  "count_columns iq = (if unique iq = [] then [item_FieldID] else unique iq)"

text \<open>
  A selector that selects \<open>COUNT(DISTINCT cols)\<close>, and a traversal that counts what
  a dedup step has let through.
\<close>

definition counts_distinct_of :: "string list \<Rightarrow> Selector \<Rightarrow> bool" where
  "counts_distinct_of cols s \<longleftrightarrow>
     sel_columns s = [CountE [DistinctE (map (Col (sel_table s)) cols)]]"

definition counts_after_dedup :: "Traversal \<Rightarrow> bool" where
  "counts_after_dedup t \<longleftrightarrow>
     2 \<le> length t \<and> last t = CountStep \<and> last (butlast t) = DedupStep"

text \<open>
  A predicate or order function that leaves the \<open>DISTINCT\<close> flag of the selector as it
  is, and one that adds no dedup step to the traversal; a builder without intermediate
  queries all of whose predicates and order functions are such.
\<close>

definition keeps_distinct :: "(Selector \<Rightarrow> Selector) \<Rightarrow> bool" where
  "keeps_distinct f \<longleftrightarrow> (\<forall>s. sel_distinct (f s) = sel_distinct s)"

definition adds_no_dedup :: "(Traversal \<Rightarrow> Traversal) \<Rightarrow> bool" where
  "adds_no_dedup f \<longleftrightarrow> (\<forall>t. DedupStep \<in> set (f t) \<longrightarrow> DedupStep \<in> set t)"

definition plain_builder :: "ItemQuery \<Rightarrow> bool" where
  "plain_builder iq \<longleftrightarrow>
     sql iq = None \<and> gremlin iq = None \<and>
     (\<forall>p \<in> set (predicates iq). keeps_distinct (psql p) \<and> adds_no_dedup (pgremlin p)) \<and>
     (\<forall>p \<in> set (order iq). keeps_distinct (osql p) \<and> adds_no_dedup (ogremlin p))"

section \<open>A driver for the examples\<close>

text \<open>
  A driver over a fixed list of identifiers, one per matching row or element, possibly
  with repetitions. The relational side honours the limit, \<open>DISTINCT\<close> and the count of
  distinct values; the traversal side runs the steps \<open>limit\<close>, \<open>range\<close> and
  \<open>dedup\<close> and passes over the others.
\<close>

datatype dbval = IntVal int | StrVal string

fun step_sem :: "step \<Rightarrow> 'e list \<Rightarrow> 'e list" where
  "step_sem (LimitStep l) xs = take (nat l) xs"
| "step_sem (RangeStep a b) xs = take (nat (b - a)) (drop (nat a) xs)"
| "step_sem DedupStep xs = remdups xs"
| "step_sem _ xs = xs"

definition example_driver :: "dialect \<Rightarrow> string list \<Rightarrow> (dbval, string) driver" where
  "example_driver dl ids =
     \<lparr>Dialect = dl,
      Query = (\<lambda>s. let rows = (case sel_limit s of None \<Rightarrow> ids | Some l \<Rightarrow> take (nat l) ids) in
                   case sel_columns s of
                     [CountE _] \<Rightarrow> Inr [IntVal (int (length (remdups rows)))]
                   | _ \<Rightarrow> Inr (map StrVal (if sel_distinct s then remdups rows else rows))),
      ScanInt = (\<lambda>r. case r of IntVal n \<Rightarrow> Inr n | StrVal _ \<Rightarrow> Inl ''not an int''),
      ScanItem = (\<lambda>r. case r of StrVal i \<Rightarrow> Inr \<lparr>ID = i\<rparr> | IntVal _ \<Rightarrow> Inl ''not a string''),
      Eval = (\<lambda>t. Inr (fold step_sem t ids)),
      DecodeItems = (\<lambda>xs. Inr (map (\<lambda>i. \<lparr>ID = i\<rparr>) xs))\<rparr>"

section \<open>Notions used to state the properties of \<open>Clone\<close>\<close>










section \<open>Schemas for the examples\<close>

text \<open>
  What a graph resolved to, edge by edge: the owner's name, the edge's name, the kind of
  the relation, its table and its columns; and the same for the graph of a list of
  schemas. \<open>derived_columns\<close> gives the names of the tables derived from the schemas,
  each with the names of its columns.
\<close>

definition edge_relations :: "Graph \<Rightarrow> (string \<times> string \<times> Rel \<times> string \<times> string list) list" where
  "edge_relations g =
     concat (map (\<lambda>n. map (\<lambda>e. (t_Name n, e_Name e, rel_Type (e_Rel e), rel_Table (e_Rel e),
                                    rel_Columns (e_Rel e))) (t_Edges n)) (Nodes g))"

definition resolved :: "gen_env \<Rightarrow> Schema list \<Rightarrow> graph_error + (string \<times> string \<times> Rel \<times> string \<times> string list) list" where
  "resolved env schemas =
     (case NewGraph env schemas of Inl err \<Rightarrow> Inl err | Inr g \<Rightarrow> Inr (edge_relations g))"

definition derived_columns :: "gen_env \<Rightarrow> Schema list \<Rightarrow> (string \<times> string list) list option" where
  "derived_columns env schemas =
     (case NewGraph env schemas of
        Inl err \<Rightarrow> None
      | Inr g \<Rightarrow>
          (case Tables env g of
             Inl err \<Rightarrow> None
           | Inr ts \<Rightarrow> Some (map (\<lambda>t. (tb_Name t, map c_Name (tb_Columns t))) ts)))"

text \<open>
  The schemas of the scenario with \<open>User\<close> and \<open>Pet\<close>: \<open>User\<close> declares the unique
  self-edge \<open>spouse\<close> as an inverse edge together with its association; the edge
  \<open>owner\<close> of \<open>Pet\<close> is either the association, with the inverse edge \<open>pets\<close> of
  \<open>User\<close>, or the inverse edge of the association \<open>pets\<close> of \<open>User\<close>.
\<close>

definition spouse_pets_schema :: "bool \<Rightarrow> bool \<Rightarrow> bool \<Rightarrow> Schema list" where
  "spouse_pets_schema owner_forward owner_unique pets_unique =
     (if owner_forward then
        [entity ''User'' [edge_To_From ''spouse'' True ''spouse'' True ''User'',
                           edge_From ''pets'' ''Pet'' pets_unique ''owner''],
         entity ''Pet'' [edge_To ''owner'' ''User'' owner_unique]]
      else
        [entity ''User'' [edge_To_From ''spouse'' True ''spouse'' True ''User'',
                           edge_To ''pets'' ''Pet'' pets_unique],
         entity ''Pet'' [edge_From ''owner'' ''User'' owner_unique ''pets'']])"

text \<open>
  Two schemas with a many-to-many relation of \<open>User\<close> to itself: the association
  \<open>users\<close>, and the association \<open>following\<close> with the inverse edge \<open>users\<close>.
\<close>

definition users_of_user :: "Schema list" where
  "users_of_user = [entity ''User'' [edge_To ''users'' ''User'' False]]"

definition users_following :: "Schema list" where
  "users_following = [entity ''User'' [edge_To_From ''following'' False ''users'' False ''User'']]"

text \<open>
  Schemas from which the generated tables derive: the fields are the columns of the
  generated tables that are neither the identifier nor a relation column, and the edges
  are those that the foreign keys and the join tables show.
\<close>

definition fields_of :: "Column list \<Rightarrow> string list \<Rightarrow> Column list" where
  "fields_of cols rels = filter (\<lambda>c. c_Name c \<notin> set rels) (tl cols)"

definition integration_schemas :: "Schema list" where
  "integration_schemas =
     [\<lparr>s_Name = ''Card'', s_ID = id_Column, s_Fields = fields_of CardsColumns [''owner_id''],
       s_Edges = [edge_From ''owner'' ''User'' True ''card''], s_Indexes = []\<rparr>,
      \<lparr>s_Name = ''Comment'', s_ID = id_Column, s_Fields = fields_of CommentsColumns [],
       s_Edges = [], s_Indexes = []\<rparr>,
      \<lparr>s_Name = ''FieldType'', s_ID = id_Column, s_Fields = fields_of FieldTypesColumns [],
       s_Edges = [], s_Indexes = []\<rparr>,
      \<lparr>s_Name = ''File'', s_ID = id_Column,
       s_Fields = fields_of FilesColumns [''type_id'', ''group_file_id'', ''owner_id''],
       s_Edges = [edge_From ''owner'' ''User'' True ''files'',
                  edge_From ''type'' ''FileType'' True ''files''],
       s_Indexes =
         [\<lparr>li_Name = ''name_size'', li_Unique = False, li_Columns = [''name'', ''size'']\<rparr>,
          \<lparr>li_Name = ''name_user'', li_Unique = True, li_Columns = [''name'', ''user'']\<rparr>,
          \<lparr>li_Name = ''name_owner_id_type_id'', li_Unique = True,
            li_Columns = [''name'', ''owner_id'', ''type_id'']\<rparr>]\<rparr>,
      \<lparr>s_Name = ''FileType'', s_ID = id_Column, s_Fields = fields_of FileTypesColumns [],
       s_Edges = [edge_To ''files'' ''File'' False], s_Indexes = []\<rparr>,
      \<lparr>s_Name = ''Group'', s_ID = id_Column, s_Fields = fields_of GroupsColumns [''info_id''],
       s_Edges = [edge_To ''files'' ''File'' False, edge_To ''blocked'' ''User'' False,
                  edge_From ''users'' ''User'' False ''groups'',
                  edge_To ''info'' ''GroupInfo'' True],
       s_Indexes = []\<rparr>,
      \<lparr>s_Name = ''GroupInfo'', s_ID = id_Column, s_Fields = fields_of GroupInfosColumns [],
       s_Edges = [edge_From ''groups'' ''Group'' False ''info''], s_Indexes = []\<rparr>,
      \<lparr>s_Name = ''Item'', s_ID = id_Column, s_Fields = fields_of ItemsColumns [],
       s_Edges = [], s_Indexes = []\<rparr>,
      \<lparr>s_Name = ''Node'', s_ID = id_Column, s_Fields = fields_of NodesColumns [''prev_id''],
       s_Edges = [edge_To_From ''next'' True ''prev'' True ''Node''], s_Indexes = []\<rparr>,
      \<lparr>s_Name = ''Pet'', s_ID = id_Column,
       s_Fields = fields_of PetsColumns [''owner_id'', ''team_id''],
       s_Edges = [edge_From ''team'' ''User'' True ''team'',
                  edge_From ''owner'' ''User'' True ''pets''],
       s_Indexes = []\<rparr>,
      \<lparr>s_Name = ''User'', s_ID = id_Column,
       s_Fields = fields_of UsersColumns [''group_blocked_id'', ''user_spouse_id'', ''parent_id''],
       s_Edges = [edge_To ''card'' ''Card'' True, edge_To ''pets'' ''Pet'' False,
                  edge_To ''files'' ''File'' False, edge_To ''groups'' ''Group'' False,
                  edge_To ''friends'' ''User'' False,
                  edge_To_From ''following'' False ''followers'' False ''User'',
                  edge_To ''team'' ''Pet'' True, edge_To ''spouse'' ''User'' True,
                  edge_To_From ''parent'' True ''children'' False ''User''],
       s_Indexes = []\<rparr>]"

section \<open>Notions used to state the properties of the tables\<close>

text \<open>
  The shape of a join table: two columns, which are its primary key, and one foreign key
  on each, cascading on delete. The foreign keys of the table of a node: each sets null
  on delete and is on nullable columns of the table.
\<close>

definition join_table_shape :: "SchemaTable \<Rightarrow> bool" where
  "join_table_shape t \<longleftrightarrow>
     length (tb_Columns t) = 2 \<and> tb_PrimaryKey t = tb_Columns t \<and>
     map fk_Columns (tb_ForeignKeys t) = map (\<lambda>c. [c]) (tb_Columns t) \<and>
     (\<forall>fk \<in> set (tb_ForeignKeys t). fk_OnDelete fk = Cascade)"

definition set_null_keys :: "SchemaTable \<Rightarrow> bool" where
  "set_null_keys t \<longleftrightarrow>
     (\<forall>fk \<in> set (tb_ForeignKeys t).
        fk_OnDelete fk = SetNull \<and>
        (\<forall>c \<in> set (fk_Columns fk). c_Nullable c \<and> c \<in> set (tb_Columns t)))"

text \<open>
  The state of the loop over the edges: the tables of the nodes and the join tables.
\<close>

definition tables_ok :: "SchemaTable list \<times> SchemaTable list \<Rightarrow> bool" where
  "tables_ok st \<longleftrightarrow>
     (\<forall>t \<in> set (fst st). set_null_keys t) \<and> (\<forall>t \<in> set (snd st). join_table_shape t)"

text \<open>The edges for which \<open>Tables\<close> creates a join table.\<close>

definition m2m_edges :: "Graph \<Rightarrow> Edge list" where
  "m2m_edges g =
     filter (\<lambda>e. \<not> IsInverse e \<and> rel_Type (e_Rel e) = M2M) (concat (map t_Edges (Nodes g)))"


section \<open>Properties of the query builder\<close>

subsection \<open>Offset without limit\<close>

text \<open>
  Claim C4. A builder with an offset and no limit compiles, on the relational backend,
  to a selector whose limit is \<open>math.MaxInt32\<close> (for the query itself and for the
  selectors of fetch-all and count), never to one without limit; on the traversal
  backend it compiles to a range from the offset up to the same maximum.
\<close>

theorem offset_without_limit:
  assumes "limit iq = None" and "offset iq = Some k"
  shows "sel_limit (sqlQuery iq) = Some MaxInt32 \<and> sel_offset (sqlQuery iq) = Some k \<and>
         sel_limit (sqlAll_selector iq) = Some MaxInt32 \<and>
         sel_limit (sqlCount_selector iq) = Some MaxInt32 \<and>
         gremlinQuery iq =
           gremlin_ordered iq @ [RangeStep k MaxInt32] @
           (if unique iq = [] then [DedupStep] else []) \<and>
         MaxInt32 = 2 ^ 31 - 1"
proof -
  have q: "sel_limit (sqlQuery iq) = Some MaxInt32 \<and> sel_offset (sqlQuery iq) = Some k"
    using assms by (simp add: sqlQuery_def Selector_Limit_def Selector_Offset_def)
  have a: "sel_limit (sqlAll_selector iq) = sel_limit (sqlQuery iq)"
    by (simp add: sqlAll_selector_def Selector_Distinct_def Let_def)
  have c: "sel_limit (sqlCount_selector iq) = sel_limit (sqlQuery iq)"
    by (simp add: sqlCount_selector_def Selector_Count_def Let_def)
  have g: "gremlinQuery iq =
      gremlin_ordered iq @ [RangeStep k MaxInt32] @ (if unique iq = [] then [DedupStep] else [])"
    using assms by (simp add: gremlinQuery_def gremlin_ranged_def)
  have m: "MaxInt32 = 2 ^ 31 - 1" by (simp add: MaxInt32_def)
  from q a c g m show ?thesis by simp
qed

theorem offset_without_limit_witness:
  "sel_limit (sqlQuery (Offset 5 (Where [has_item ''a''] new_query))) = Some 2147483647 \<and>
   gremlinQuery (Offset 5 (Where [has_item ''a''] new_query)) =
     [V, HasLabel ''item'', HasStep ''a'', RangeStep 5 2147483647, DedupStep]"
proof -
  let ?q = "Offset 5 (Where [has_item ''a''] new_query)"
  have l: "limit ?q = None" by (simp add: Offset_def Where_def new_query_def)
  have off: "offset ?q = Some 5" by (simp add: Offset_def)
  have ord: "gremlin_ordered ?q = [V, HasLabel ''item'', HasStep ''a'']"
    by (simp add: gremlin_ordered_def gremlin_filtered_def gremlin_base_def Offset_def Where_def
        new_query_def has_item_def item_Label_def)
  have u: "unique ?q = []" by (simp add: Offset_def Where_def new_query_def)
  from offset_without_limit [OF l off] ord u show ?thesis by (simp add: MaxInt32_def)
qed

subsection \<open>Count\<close>

text \<open>
  Claim C1, as the code has it. On the relational backend the count selects
  \<open>COUNT(DISTINCT cols)\<close>, where \<open>cols\<close> are the configured unique columns or, without
  them, the identifier column, whatever the builder holds. On the traversal backend the
  count step is appended to the compiled traversal: it follows a dedup step when no
  unique columns are configured, and follows the traversal as it is, without a dedup
  step of the builder's, when they are.
\<close>

theorem count_is_distinct_count:
  "counts_distinct_of (count_columns iq) (sqlCount_selector iq) \<and>
   gremlinCount_traversal iq =
     gremlin_ranged iq @ (if unique iq = [] then [DedupStep] else []) @ [CountStep] \<and>
   (if unique iq = [] then counts_after_dedup (gremlinCount_traversal iq)
    else gremlinCount_traversal iq = gremlin_ranged iq @ [CountStep])"
proof -
  have s: "counts_distinct_of (count_columns iq) (sqlCount_selector iq)"
    by (simp add: counts_distinct_of_def count_columns_def sqlCount_selector_def Let_def
        Selector_Count_def sql_Distinct_def Selector_Columns_def)
  have g: "gremlinCount_traversal iq =
     gremlin_ranged iq @ (if unique iq = [] then [DedupStep] else []) @ [CountStep]"
    by (simp add: gremlinCount_traversal_def gremlinQuery_def Let_def)
  have d: "unique iq = [] \<Longrightarrow> counts_after_dedup (gremlinCount_traversal iq)"
    by (simp add: g counts_after_dedup_def butlast_append)
  from s g d show ?thesis by simp
qed

text \<open>
  With unique columns configured the traversal backend counts every element: the
  compiled traversal has no dedup step, and over two equal elements the count is 2.
\<close>

theorem count_raw_with_unique_override:
  "\<not> counts_after_dedup (gremlinCount_traversal (new_query\<lparr>unique := [''name'']\<rparr>)) \<and>
   gremlinCount_traversal (new_query\<lparr>unique := [''name'']\<rparr>) =
     [V, HasLabel ''item'', CountStep] \<and>
   fst (Count (example_driver Gremlin [''a'', ''a''])
          (new_query\<lparr>unique := [''name'']\<rparr>)) = Inr 2"
  by (simp add: counts_after_dedup_def gremlinCount_traversal_def gremlinQuery_def
      gremlin_ranged_def gremlin_ordered_def gremlin_filtered_def gremlin_base_def new_query_def
      item_Label_def Count_def gremlinCount_def Exec_def example_driver_def ReadInt_def)

subsection \<open>Exist\<close>

lemma sqlExist_iff:
  "fst (sqlExist d iq) = Inr b \<longleftrightarrow> (\<exists>n. fst (sqlCount d iq) = Inr n \<and> b = (0 < n))"
  by (cases "sqlCount d iq"; cases "fst (sqlCount d iq)") (auto simp: sqlExist_def)

lemma gremlinExist_iff:
  "fst (gremlinExist d iq) = Inr b \<longleftrightarrow> (\<exists>n. fst (gremlinCount d iq) = Inr n \<and> b = (0 < n))"
  by (cases "Eval d (gremlinQuery iq)")
     (auto simp: gremlinExist_def gremlinCount_def gremlinExist_traversal_def
       gremlinCount_traversal_def Exec_def ReadInt_def ReadBool_def)

text \<open>
  Claim C2. On every driver and for every builder, \<open>Exist\<close> returns the value \<open>b\<close>
  exactly when \<open>Count\<close> on the same builder returns some \<open>n\<close> with \<open>b = (n > 0)\<close>: it
  returns true exactly when the count is greater than 0, whether or not the builder has
  predicates. The relational backend computes it from the count; the traversal backend
  asks the server \<open>hasNext()\<close> of the traversal that the count counts.
\<close>

theorem exist_iff_count_positive:
  "(fst (Exist d iq) = Inr b) = (\<exists>n. fst (Count d iq) = Inr n \<and> b = (0 < n))"
  by (cases "Dialect d") (simp_all add: Exist_def Count_def sqlExist_iff gremlinExist_iff)

subsection \<open>Deduplication\<close>

lemma keeps_distinctD: "keeps_distinct f \<Longrightarrow> sel_distinct (f s) = sel_distinct s"
  by (simp add: keeps_distinct_def)

lemma adds_no_dedupD: "adds_no_dedup f \<Longrightarrow> DedupStep \<notin> set t \<Longrightarrow> DedupStep \<notin> set (f t)"
  unfolding adds_no_dedup_def by blast

lemma fold_keeps_distinct:
  "\<forall>x \<in> set xs. keeps_distinct (g x) \<Longrightarrow> sel_distinct (fold g xs s) = sel_distinct s"
proof (induction xs arbitrary: s)
  case Nil
  then show ?case by simp
next
  case (Cons x xs)
  from Cons.prems have k: "keeps_distinct (g x)" and r: "\<forall>y \<in> set xs. keeps_distinct (g y)"
    by simp_all
  have "sel_distinct (fold g xs (g x s)) = sel_distinct (g x s)"
    by (rule Cons.IH [OF r])
  also have "\<dots> = sel_distinct s"
    by (rule keeps_distinctD [OF k])
  finally show ?case by simp
qed

lemma fold_adds_no_dedup:
  "\<forall>x \<in> set xs. adds_no_dedup (g x) \<Longrightarrow> DedupStep \<notin> set t \<Longrightarrow> DedupStep \<notin> set (fold g xs t)"
proof (induction xs arbitrary: t)
  case Nil
  then show ?case by simp
next
  case (Cons x xs)
  from Cons.prems have k: "adds_no_dedup (g x)" and r: "\<forall>y \<in> set xs. adds_no_dedup (g y)"
    by simp_all
  have "DedupStep \<notin> set (g x t)"
    by (rule adds_no_dedupD [OF k]) (rule Cons.prems(2))
  then have "DedupStep \<notin> set (fold g xs (g x t))"
    by (rule Cons.IH [OF r])
  then show ?case by simp
qed

lemma plain_sql_ordered:
  assumes "plain_builder iq" shows "\<not> sel_distinct (sql_ordered iq)"
proof -
  have p: "\<forall>p \<in> set (predicates iq). keeps_distinct (psql p)"
    and q: "\<forall>p \<in> set (order iq). keeps_distinct (osql p)"
    using assms by (simp_all add: plain_builder_def)
  have b: "\<not> sel_distinct (sql_base iq)"
    using assms by (simp add: plain_builder_def sql_base_def sql_Select_From_def)
  have f: "sel_distinct (sql_filtered iq) = sel_distinct (sql_base iq)"
    unfolding sql_filtered_def by (rule fold_keeps_distinct [OF p])
  have o: "sel_distinct (sql_ordered iq) = sel_distinct (sql_filtered iq)"
    unfolding sql_ordered_def by (rule fold_keeps_distinct [OF q])
  from b f o show ?thesis by simp
qed

lemma sel_distinct_sqlQuery: "sel_distinct (sqlQuery iq) = sel_distinct (sql_ordered iq)"
  by (cases "offset iq"; cases "limit iq")
     (simp_all add: sqlQuery_def Selector_Limit_def Selector_Offset_def)

lemma plain_gremlin_ranged:
  assumes "plain_builder iq" shows "DedupStep \<notin> set (gremlin_ranged iq)"
proof -
  have p: "\<forall>p \<in> set (predicates iq). adds_no_dedup (pgremlin p)"
    and q: "\<forall>p \<in> set (order iq). adds_no_dedup (ogremlin p)"
    using assms by (simp_all add: plain_builder_def)
  have b: "DedupStep \<notin> set (gremlin_base iq)"
    using assms by (simp add: plain_builder_def gremlin_base_def)
  have f: "DedupStep \<notin> set (gremlin_filtered iq)"
    unfolding gremlin_filtered_def by (rule fold_adds_no_dedup [OF p b])
  have o: "DedupStep \<notin> set (gremlin_ordered iq)"
  proof (cases "order iq = []")
    case True
    then show ?thesis using f by (simp add: gremlin_ordered_def)
  next
    case False
    have s: "DedupStep \<notin> set (gremlin_filtered iq @ [OrderStep])"
      using f by simp
    have "DedupStep \<notin> set (fold ogremlin (order iq) (gremlin_filtered iq @ [OrderStep]))"
      by (rule fold_adds_no_dedup [OF q s])
    then show ?thesis using False by (simp add: gremlin_ordered_def)
  qed
  show ?thesis
    using o by (cases "offset iq"; cases "limit iq") (simp_all add: gremlin_ranged_def)
qed

text \<open>
  Claim C5. A builder without unique columns deduplicates on both backends: the selector
  of fetch-all is marked \<open>DISTINCT\<close> and the compiled traversal ends in a dedup step.
  With unique columns configured neither is applied: the selector of fetch-all is the
  compiled query and the traversal gets no dedup step; for a builder whose predicates,
  order functions and intermediate queries bring none, the selector is then not
  \<open>DISTINCT\<close> and the traversal has no dedup step at all.
\<close>

theorem dedup_by_default:
  "(unique iq = [] \<longrightarrow>
      sel_distinct (sqlAll_selector iq) \<and> gremlinQuery iq = gremlin_ranged iq @ [DedupStep]) \<and>
   (unique iq \<noteq> [] \<longrightarrow>
      sqlAll_selector iq = sqlQuery iq \<and> gremlinQuery iq = gremlin_ranged iq) \<and>
   (unique iq \<noteq> [] \<and> plain_builder iq \<longrightarrow>
      \<not> sel_distinct (sqlAll_selector iq) \<and> DedupStep \<notin> set (gremlinQuery iq))"
proof (intro conjI impI)
  assume "unique iq = []"
  then show "sel_distinct (sqlAll_selector iq)"
    by (simp add: sqlAll_selector_def Selector_Distinct_def)
next
  assume "unique iq = []"
  then show "gremlinQuery iq = gremlin_ranged iq @ [DedupStep]"
    by (simp add: gremlinQuery_def)
next
  assume "unique iq \<noteq> []"
  then show "sqlAll_selector iq = sqlQuery iq"
    by (simp add: sqlAll_selector_def)
next
  assume "unique iq \<noteq> []"
  then show "gremlinQuery iq = gremlin_ranged iq"
    by (simp add: gremlinQuery_def)
next
  assume a: "unique iq \<noteq> [] \<and> plain_builder iq"
  then have "sqlAll_selector iq = sqlQuery iq"
    by (simp add: sqlAll_selector_def)
  then show "\<not> sel_distinct (sqlAll_selector iq)"
    using a plain_sql_ordered [of iq] by (simp add: sel_distinct_sqlQuery)
next
  assume a: "unique iq \<noteq> [] \<and> plain_builder iq"
  then have "gremlinQuery iq = gremlin_ranged iq"
    by (simp add: gremlinQuery_def)
  then show "DedupStep \<notin> set (gremlinQuery iq)"
    using a plain_gremlin_ranged [of iq] by simp
qed

lemma has_item_plain: "keeps_distinct (psql (has_item c)) \<and> adds_no_dedup (pgremlin (has_item c))"
  by (simp add: keeps_distinct_def adds_no_dedup_def has_item_def)

theorem dedup_by_default_witness:
  "sel_distinct (sqlAll_selector (Where [has_item ''a''] new_query)) \<and>
   gremlinQuery (Where [has_item ''a''] new_query) = [V, HasLabel ''item'', HasStep ''a'', DedupStep] \<and>
   \<not> sel_distinct (sqlAll_selector (Where [has_item ''a''] (new_query\<lparr>unique := [''name'']\<rparr>))) \<and>
   gremlinQuery (Where [has_item ''a''] (new_query\<lparr>unique := [''name'']\<rparr>)) = [V, HasLabel ''item'', HasStep ''a'']"
proof -
  let ?q = "Where [has_item ''a''] new_query"
  let ?u = "Where [has_item ''a''] (new_query\<lparr>unique := [''name'']\<rparr>)"
  have q: "unique ?q = []" by (simp add: Where_def new_query_def)
  have u: "unique ?u \<noteq> []" by (simp add: Where_def new_query_def)
  have p: "plain_builder ?u"
    by (simp add: plain_builder_def Where_def new_query_def has_item_plain)
  have rq: "gremlin_ranged ?q = [V, HasLabel ''item'', HasStep ''a'']"
    by (simp add: gremlin_ranged_def gremlin_ordered_def gremlin_filtered_def gremlin_base_def
        Where_def new_query_def has_item_def item_Label_def)
  have ru: "gremlin_ranged ?u = [V, HasLabel ''item'', HasStep ''a'']"
    by (simp add: gremlin_ranged_def gremlin_ordered_def gremlin_filtered_def gremlin_base_def
        Where_def new_query_def has_item_def item_Label_def)
  from dedup_by_default [of ?q] q rq
  have 1: "sel_distinct (sqlAll_selector ?q) \<and>
           gremlinQuery ?q = [V, HasLabel ''item'', HasStep ''a'', DedupStep]"
    by simp
  from dedup_by_default [of ?u] u p
  have "\<not> sel_distinct (sqlAll_selector ?u)" and "gremlinQuery ?u = gremlin_ranged ?u"
    by blast+
  with ru have 2: "\<not> sel_distinct (sqlAll_selector ?u) \<and>
           gremlinQuery ?u = [V, HasLabel ''item'', HasStep ''a'']"
    by simp
  from 1 2 show ?thesis by simp
qed

subsection \<open>\<open>First\<close> and \<open>Only\<close>\<close>







lemma sel_limit_sqlQuery: "limit iq = Some n \<Longrightarrow> sel_limit (sqlQuery iq) = Some n"
  by (simp add: sqlQuery_def Selector_Limit_def Let_def)


lemma gremlin_ranged_limit:
  "limit iq = Some n \<Longrightarrow>
   gremlin_ranged iq =
     gremlin_ordered iq @
     [case offset iq of None \<Rightarrow> LimitStep n | Some off \<Rightarrow> RangeStep off (go_add off n)]"
  by (cases "offset iq") (simp_all add: gremlin_ranged_def)





lemma snd_All_items: "limit (snd (All_items d iq)) = limit iq \<and> offset (snd (All_items d iq)) = offset iq"
  by (cases "Dialect d") (simp_all add: All_items_def sqlAll_def gremlinAll_def sql_touch_def Let_def)

lemma snd_First: "snd (First d iq) = snd (All_items d (Limit 1 iq))"
  by (cases "All_items d (Limit 1 iq)") (simp add: First_def split: sum.splits list.splits)

lemma snd_Only: "snd (Only d iq) = snd (All_items d (Limit 2 iq))"
  by (cases "All_items d (Limit 2 iq)") (simp add: Only_def split: sum.splits list.splits)

lemma run_ptr_limit:
  "o_limit (objs (snd (run_ptr f p h)) p) = limit (snd (f (deref h p))) \<and>
   limit (deref (snd (run_ptr f p h)) p) = limit (snd (f (deref h p)))"
  by (cases "f (deref h p)") (simp add: run_ptr_def store_back_def deref_def)

text \<open>
  Claim C10. \<open>First\<close> and \<open>Only\<close> change the builder they are called on: afterwards
  its limit is 1 (respectively 2), in the state the operation returns and in the object
  behind the pointer, so a query compiled from the same builder afterwards has that
  limit, on the relational backend and on the traversal backend.
\<close>

theorem first_and_only_set_the_limit:
  "limit (snd (First d iq)) = Some 1 \<and> limit (snd (Only d iq)) = Some 2 \<and>
   sel_limit (sqlQuery (snd (First d iq))) = Some 1 \<and>
   sel_limit (sqlQuery (snd (Only d iq))) = Some 2 \<and>
   gremlin_ranged (snd (First d iq)) =
     gremlin_ordered (snd (First d iq)) @
     [case offset iq of None \<Rightarrow> LimitStep 1 | Some off \<Rightarrow> RangeStep off (go_add off 1)] \<and>
   gremlin_ranged (snd (Only d iq)) =
     gremlin_ordered (snd (Only d iq)) @
     [case offset iq of None \<Rightarrow> LimitStep 2 | Some off \<Rightarrow> RangeStep off (go_add off 2)] \<and>
   o_limit (objs (snd (run_ptr (First d) p h)) p) = Some 1 \<and>
   o_limit (objs (snd (run_ptr (Only d) p h)) p) = Some 2 \<and>
   limit (deref (snd (run_ptr (First d) p h)) p) = Some 1 \<and>
   limit (deref (snd (run_ptr (Only d) p h)) p) = Some 2"
proof -
  have l1: "limit (snd (First d iq)) = Some 1" for iq
    by (simp add: snd_First snd_All_items Limit_def)
  have l2: "limit (snd (Only d iq)) = Some 2" for iq
    by (simp add: snd_Only snd_All_items Limit_def)
  have o1: "offset (snd (First d iq)) = offset iq"
    by (simp add: snd_First snd_All_items Limit_def)
  have o2: "offset (snd (Only d iq)) = offset iq"
    by (simp add: snd_Only snd_All_items Limit_def)
  have g1: "gremlin_ranged (snd (First d iq)) =
     gremlin_ordered (snd (First d iq)) @
     [case offset iq of None \<Rightarrow> LimitStep 1 | Some off \<Rightarrow> RangeStep off (go_add off 1)]"
    using gremlin_ranged_limit [OF l1] by (simp add: o1)
  have g2: "gremlin_ranged (snd (Only d iq)) =
     gremlin_ordered (snd (Only d iq)) @
     [case offset iq of None \<Rightarrow> LimitStep 2 | Some off \<Rightarrow> RangeStep off (go_add off 2)]"
    using gremlin_ranged_limit [OF l2] by (simp add: o2)
  show ?thesis
    using l1 [of iq] l2 [of iq] sel_limit_sqlQuery [OF l1 [of iq]] sel_limit_sqlQuery [OF l2 [of iq]]
      g1 g2 l1 [of "deref h p"] l2 [of "deref h p"]
    by (simp add: run_ptr_limit)
qed

subsection \<open>\<open>Clone\<close>\<close>


















section \<open>Properties of the resolver and of the derived tables\<close>

subsection \<open>Join tables and foreign keys\<close>

lemma fold_AddColumn_keys: "tb_ForeignKeys (fold AddColumn cs t) = tb_ForeignKeys t"
  by (induction cs arbitrary: t) (simp_all add: AddColumn_def)

lemma node_table_keys: "set_null_keys (node_table env n)"
  by (simp add: set_null_keys_def node_table_def fold_AddColumn_keys AddPrimary_def
      schema_NewTable_def)

lemma set_null_keys_update:
  assumes "\<forall>t \<in> set ents. set_null_keys t" and "k < length ents \<Longrightarrow> set_null_keys t'"
  shows "\<forall>t \<in> set (ents[k := t']). set_null_keys t"
proof (cases "k < length ents")
  case True
  have "set (ents[k := t']) \<subseteq> insert t' (set ents)" by (rule set_update_subset_insert)
  with assms True show ?thesis by auto
next
  case False
  then have "ents[k := t'] = ents" by (simp add: list_update_beyond not_less)
  with assms(1) show ?thesis by simp
qed

lemma set_null_keys_AddColumn: "set_null_keys t \<Longrightarrow> set_null_keys (AddColumn c t)"
  by (simp add: set_null_keys_def AddColumn_def)

lemma set_null_keys_AddForeignKey:
  assumes "set_null_keys t" and "fk_OnDelete fk = SetNull"
    and "\<forall>c \<in> set (fk_Columns fk). c_Nullable c \<and> c \<in> set (tb_Columns t)"
  shows "set_null_keys (AddForeignKey fk t)"
  using assms by (simp add: set_null_keys_def AddForeignKey_def)

lemma add_relation_column_keys:
  assumes "\<forall>t \<in> set ents. set_null_keys t"
    and "add_relation_column e uniq owner ref ents = Inr ents'"
  shows "\<forall>t \<in> set ents'. set_null_keys t"
proof -
  from assms(2) obtain cname rest ow rf pk pks where
    c: "rel_Columns (e_Rel e) = cname # rest" and o: "owner = Some ow" and r: "ref = Some rf"
    and p: "tb_PrimaryKey ((ents[ow := AddColumn (int_Column cname uniq True) (ents ! ow)]) ! rf) = pk # pks"
    by (auto simp: add_relation_column_def Let_def split: list.splits option.splits)
  let ?column = "int_Column cname uniq True"
  let ?ents1 = "ents[ow := AddColumn ?column (ents ! ow)]"
  let ?fk = "\<lparr>fk_Symbol = tb_Name (?ents1 ! ow) @ ''_'' @ tb_Name (?ents1 ! rf) @ ''_'' @ e_Name e,
              fk_Columns = [?column], fk_RefTable = tb_Name (?ents1 ! rf),
              fk_RefColumns = [pk], fk_OnDelete = SetNull\<rparr>"
  from assms(2) have e': "ents' = ?ents1[ow := AddForeignKey ?fk (?ents1 ! ow)]"
    by (simp add: add_relation_column_def Let_def c o r p)
  have 1: "\<forall>t \<in> set ?ents1. set_null_keys t"
  proof (rule set_null_keys_update [OF assms(1)])
    assume "ow < length ents"
    with assms(1) have "set_null_keys (ents ! ow)" by simp
    then show "set_null_keys (AddColumn ?column (ents ! ow))" by (rule set_null_keys_AddColumn)
  qed
  have 2: "\<forall>t \<in> set (?ents1[ow := AddForeignKey ?fk (?ents1 ! ow)]). set_null_keys t"
  proof (rule set_null_keys_update [OF 1])
    assume l: "ow < length ?ents1"
    then have n: "?ents1 ! ow = AddColumn ?column (ents ! ow)" by simp
    from l assms(1) have "set_null_keys (ents ! ow)" by simp
    then have k: "set_null_keys (?ents1 ! ow)" by (simp add: n set_null_keys_AddColumn)
    from l have l0: "ow < length ents" by simp
    have m: "int_Column cname uniq True \<in> set (tb_Columns (?ents1 ! ow))"
      by (simp add: l0 AddColumn_def)
    have u: "c_Nullable (int_Column cname uniq True)"
      by (simp add: int_Column_def)
    show "set_null_keys (AddForeignKey ?fk (?ents1 ! ow))"
      by (rule set_null_keys_AddForeignKey [OF k]) (simp_all add: m u)
  qed
  from 2 show ?thesis by (simp add: e')
qed

lemma join_table_has_shape:
  assumes "join_table e t1 t2 ents = Inr jt"
  shows "join_table_shape jt"
  using assms
  by (auto simp: join_table_def join_table_shape_def Let_def
      split: list.splits option.splits prod.splits)

lemma edge_tables_ok:
  assumes "tables_ok st" and "edge_tables env g n e st = Inr st'"
  shows "tables_ok st'"
proof (cases "IsInverse e")
  case True
  with assms show ?thesis by (simp add: edge_tables_def Let_def)
next
  case False
  show ?thesis
  proof (cases "rel_Type (e_Rel e)")
    case Unk
    with False assms show ?thesis by (simp add: edge_tables_def Let_def)
  next
    case O2O
    with False assms(2) obtain ents' where
      a: "add_relation_column e True (lookup_table env (Nodes g) (rel_Table (e_Rel e)))
            (lookup_table env (Nodes g) (Table env (t_Name n))) (fst st) = Inr ents'"
      and s: "st' = (ents', snd st)"
      by (auto simp: edge_tables_def Let_def split: sum.splits)
    from assms(1) have "\<forall>t \<in> set (fst st). set_null_keys t" by (simp add: tables_ok_def)
    from add_relation_column_keys [OF this a] assms(1) show ?thesis
      by (simp add: s tables_ok_def)
  next
    case O2M
    with False assms(2) obtain ents' where
      a: "add_relation_column e False (lookup_table env (Nodes g) (rel_Table (e_Rel e)))
            (lookup_table env (Nodes g) (Table env (t_Name n))) (fst st) = Inr ents'"
      and s: "st' = (ents', snd st)"
      by (auto simp: edge_tables_def Let_def split: sum.splits)
    from assms(1) have "\<forall>t \<in> set (fst st). set_null_keys t" by (simp add: tables_ok_def)
    from add_relation_column_keys [OF this a] assms(1) show ?thesis
      by (simp add: s tables_ok_def)
  next
    case M2O
    with False assms(2) obtain ents' where
      a: "add_relation_column e False (lookup_table env (Nodes g) (rel_Table (e_Rel e)))
            (lookup_table env (Nodes g) (Table env (t_Name (Nodes g ! e_Type e)))) (fst st) = Inr ents'"
      and s: "st' = (ents', snd st)"
      by (auto simp: edge_tables_def Let_def split: sum.splits)
    from assms(1) have "\<forall>t \<in> set (fst st). set_null_keys t" by (simp add: tables_ok_def)
    from add_relation_column_keys [OF this a] assms(1) show ?thesis
      by (simp add: s tables_ok_def)
  next
    case M2M
    with False assms(2) obtain jt where
      a: "join_table e (lookup_table env (Nodes g) (Table env (t_Name n)))
            (lookup_table env (Nodes g) (Table env (t_Name (Nodes g ! e_Type e)))) (fst st) = Inr jt"
      and s: "st' = (fst st, snd st @ [jt])"
      by (auto simp: edge_tables_def Let_def split: sum.splits)
    from join_table_has_shape [OF a] assms(1) show ?thesis
      by (simp add: s tables_ok_def)
  qed
qed


lemma add_relation_column_length:
  "add_relation_column e uniq owner ref ents = Inr ents' \<Longrightarrow> length ents' = length ents"
  by (auto simp: add_relation_column_def Let_def split: list.splits option.splits)

lemma edge_tables_shape:
  assumes "edge_tables env g n e st = Inr st'"
  shows "length (fst st') = length (fst st) \<and>
         map tb_Name (snd st') =
           map tb_Name (snd st) @
           map (\<lambda>e. rel_Table (e_Rel e)) (filter (\<lambda>e. \<not> IsInverse e \<and> rel_Type (e_Rel e) = M2M) [e])"
proof (cases "IsInverse e")
  case True
  with assms show ?thesis by (simp add: edge_tables_def Let_def)
next
  case False
  show ?thesis
  proof (cases "rel_Type (e_Rel e)")
    case Unk
    with False assms show ?thesis by (simp add: edge_tables_def Let_def)
  next
    case O2O
    with False assms show ?thesis
      by (auto simp: edge_tables_def Let_def split: sum.splits dest: add_relation_column_length)
  next
    case O2M
    with False assms show ?thesis
      by (auto simp: edge_tables_def Let_def split: sum.splits dest: add_relation_column_length)
  next
    case M2O
    with False assms show ?thesis
      by (auto simp: edge_tables_def Let_def split: sum.splits dest: add_relation_column_length)
  next
    case M2M
    with False assms obtain jt where
      a: "join_table e (lookup_table env (Nodes g) (Table env (t_Name n)))
            (lookup_table env (Nodes g) (Table env (t_Name (Nodes g ! e_Type e)))) (fst st) = Inr jt"
      and s: "st' = (fst st, snd st @ [jt])"
      by (auto simp: edge_tables_def Let_def split: sum.splits)
    from a have "tb_Name jt = rel_Table (e_Rel e)"
      by (auto simp: join_table_def Let_def split: list.splits option.splits prod.splits)
    with False M2M show ?thesis by (simp add: s)
  qed
qed

lemma edges_tables_shape:
  "foldE (edge_tables env g n) es st = Inr st' \<Longrightarrow>
   length (fst st') = length (fst st) \<and>
   map tb_Name (snd st') =
     map tb_Name (snd st) @
     map (\<lambda>e. rel_Table (e_Rel e)) (filter (\<lambda>e. \<not> IsInverse e \<and> rel_Type (e_Rel e) = M2M) es)"
proof (induction es arbitrary: st)
  case Nil
  then show ?case by simp
next
  case (Cons e es)
  from Cons.prems obtain s1 where 1: "edge_tables env g n e st = Inr s1"
    and 2: "foldE (edge_tables env g n) es s1 = Inr st'"
    by (cases "edge_tables env g n e st") simp_all
  from edge_tables_shape [OF 1] Cons.IH [OF 2] show ?case by simp
qed

lemma nodes_tables_shape:
  "foldE (\<lambda>n. foldE (edge_tables env g n) (t_Edges n)) ns st = Inr st' \<Longrightarrow>
   length (fst st') = length (fst st) \<and>
   map tb_Name (snd st') =
     map tb_Name (snd st) @
     map (\<lambda>e. rel_Table (e_Rel e))
       (filter (\<lambda>e. \<not> IsInverse e \<and> rel_Type (e_Rel e) = M2M) (concat (map t_Edges ns)))"
proof (induction ns arbitrary: st)
  case Nil
  then show ?case by simp
next
  case (Cons n ns)
  from Cons.prems obtain s1 where 1: "foldE (edge_tables env g n) (t_Edges n) st = Inr s1"
    and 2: "foldE (\<lambda>n. foldE (edge_tables env g n) (t_Edges n)) ns s1 = Inr st'"
    by (cases "foldE (edge_tables env g n) (t_Edges n) st") simp_all
  from edges_tables_shape [OF 1] Cons.IH [OF 2] show ?case by simp
qed

lemma edges_tables_ok:
  "tables_ok st \<Longrightarrow> foldE (edge_tables env g n) es st = Inr st' \<Longrightarrow> tables_ok st'"
proof (induction es arbitrary: st)
  case Nil
  then show ?case by simp
next
  case (Cons e es)
  from Cons.prems(2) obtain s1 where 1: "edge_tables env g n e st = Inr s1"
    and 2: "foldE (edge_tables env g n) es s1 = Inr st'"
    by (cases "edge_tables env g n e st") simp_all
  from edge_tables_ok [OF Cons.prems(1) 1] have "tables_ok s1" .
  from Cons.IH [OF this 2] show ?case .
qed

lemma nodes_tables_ok:
  "tables_ok st \<Longrightarrow>
   foldE (\<lambda>n. foldE (edge_tables env g n) (t_Edges n)) ns st = Inr st' \<Longrightarrow> tables_ok st'"
proof (induction ns arbitrary: st)
  case Nil
  then show ?case by simp
next
  case (Cons n ns)
  from Cons.prems(2) obtain s1 where 1: "foldE (edge_tables env g n) (t_Edges n) st = Inr s1"
    and 2: "foldE (\<lambda>n. foldE (edge_tables env g n) (t_Edges n)) ns s1 = Inr st'"
    by (cases "foldE (edge_tables env g n) (t_Edges n) st") simp_all
  from edges_tables_ok [OF Cons.prems(1) 1] have "tables_ok s1" .
  from Cons.IH [OF this 2] show ?case .
qed

lemma fold_Table_AddIndex:
  "tb_ForeignKeys (fold Table_AddIndex is t) = tb_ForeignKeys t \<and>
   tb_Columns (fold Table_AddIndex is t) = tb_Columns t"
  by (induction "is" arbitrary: t) (simp_all add: Table_AddIndex_def)

lemma node_indexes_keys:
  assumes "(\<forall>t \<in> set ents. set_null_keys t) \<and> length ents = k"
    and "node_indexes env g n ents = Inr ents'"
  shows "(\<forall>t \<in> set ents'. set_null_keys t) \<and> length ents' = k"
proof -
  from assms(2) obtain i where
    e: "ents' = ents[i := fold Table_AddIndex (t_Indexes n) (ents ! i)]"
    by (auto simp: node_indexes_def split: option.splits)
  have "\<forall>t \<in> set (ents[i := fold Table_AddIndex (t_Indexes n) (ents ! i)]). set_null_keys t"
  proof (rule set_null_keys_update)
    from assms(1) show "\<forall>t \<in> set ents. set_null_keys t" by simp
  next
    assume "i < length ents"
    with assms(1) have "set_null_keys (ents ! i)" by simp
    then show "set_null_keys (fold Table_AddIndex (t_Indexes n) (ents ! i))"
      by (simp add: set_null_keys_def fold_Table_AddIndex)
  qed
  with assms(1) show ?thesis by (simp add: e)
qed

lemma nodes_indexes_keys:
  "(\<forall>t \<in> set ents. set_null_keys t) \<and> length ents = k \<Longrightarrow>
   foldE (node_indexes env g) ns ents = Inr ents' \<Longrightarrow>
   (\<forall>t \<in> set ents'. set_null_keys t) \<and> length ents' = k"
proof (induction ns arbitrary: ents)
  case Nil
  then show ?case by simp
next
  case (Cons n ns)
  from Cons.prems(2) obtain e1 where 1: "node_indexes env g n ents = Inr e1"
    and 2: "foldE (node_indexes env g) ns e1 = Inr ents'"
    by (cases "node_indexes env g n ents") simp_all
  from node_indexes_keys [OF Cons.prems(1) 1]
  have "(\<forall>t \<in> set e1. set_null_keys t) \<and> length e1 = k" .
  from Cons.IH [OF this 2] show ?case .
qed

text \<open>
  Claim C8. Whenever \<open>Tables\<close> returns, its result is the tables of the nodes, in their
  order, followed by one join table for each many-to-many edge that is not an inverse
  edge, under the relation's table name. Every join table has exactly two columns, which
  form its primary key, and a foreign key on each of them that cascades on delete;
  every foreign key of the table of a node is on nullable columns of that table and
  sets null on delete.
\<close>

theorem derived_tables_keys:
  assumes "Tables env g = Inr ts"
  shows "length ts = length (Nodes g) + length (m2m_edges g) \<and>
         (\<forall>t \<in> set (take (length (Nodes g)) ts). set_null_keys t) \<and>
         (\<forall>t \<in> set (drop (length (Nodes g)) ts). join_table_shape t) \<and>
         map tb_Name (drop (length (Nodes g)) ts) = map (\<lambda>e. rel_Table (e_Rel e)) (m2m_edges g)"
proof -
  let ?ents0 = "map (node_table env) (Nodes g)"
  from assms obtain ents1 joins ents2 where
    1: "foldE (\<lambda>n. foldE (edge_tables env g n) (t_Edges n)) (Nodes g) (?ents0, []) = Inr (ents1, joins)"
    and 2: "foldE (node_indexes env g) (Nodes g) ents1 = Inr ents2"
    and ts: "ts = ents2 @ joins"
    by (auto simp: Tables_def Let_def split: sum.splits prod.splits)
  have ok0: "tables_ok (?ents0, [])"
    by (simp add: tables_ok_def node_table_keys)
  from nodes_tables_ok [OF ok0 1] have ok1: "tables_ok (ents1, joins)" .
  from nodes_tables_shape [OF 1]
  have l1: "length ents1 = length (Nodes g)"
    and n1: "map tb_Name joins = map (\<lambda>e. rel_Table (e_Rel e)) (m2m_edges g)"
    by (simp_all add: m2m_edges_def)
  from ok1 l1 have i1: "(\<forall>t \<in> set ents1. set_null_keys t) \<and> length ents1 = length (Nodes g)"
    by (simp add: tables_ok_def)
  from nodes_indexes_keys [OF i1 2]
  have i2: "(\<forall>t \<in> set ents2. set_null_keys t) \<and> length ents2 = length (Nodes g)" .
  from n1 have "length joins = length (m2m_edges g)"
    by (metis length_map)
  with i2 ok1 n1 show ?thesis by (simp add: ts tables_ok_def)
qed


text \<open>
  The generated schema is what the resolver and \<open>Tables\<close> derive from the schemas
  above: the fourteen tables, and the relation of every edge.
\<close>

lemma integration_derived:
  "case NewGraph example_env integration_schemas of
     Inl err \<Rightarrow> False
   | Inr g \<Rightarrow>
       length (Nodes g) = 11 \<and> Tables example_env g = Inr generated_Tables \<and>
       edge_relations g =
         [(''Card'', ''owner'', O2O, ''cards'', [''owner_id'']),
          (''File'', ''owner'', M2O, ''files'', [''owner_id'']),
          (''File'', ''type'', M2O, ''files'', [''type_id'']),
          (''FileType'', ''files'', O2M, ''files'', [''type_id'']),
          (''Group'', ''files'', O2M, ''files'', [''group_file_id'']),
          (''Group'', ''blocked'', O2M, ''users'', [''group_blocked_id'']),
          (''Group'', ''users'', M2M, ''user_groups'', [''user_id'', ''group_id'']),
          (''Group'', ''info'', M2O, ''groups'', [''info_id'']),
          (''GroupInfo'', ''groups'', O2M, ''groups'', [''info_id'']),
          (''Node'', ''prev'', O2O, ''nodes'', [''prev_id'']),
          (''Node'', ''next'', O2O, ''nodes'', [''prev_id'']),
          (''Pet'', ''team'', O2O, ''pets'', [''team_id'']),
          (''Pet'', ''owner'', M2O, ''pets'', [''owner_id'']),
          (''User'', ''card'', O2O, ''cards'', [''owner_id'']),
          (''User'', ''pets'', O2M, ''pets'', [''owner_id'']),
          (''User'', ''files'', O2M, ''files'', [''owner_id'']),
          (''User'', ''groups'', M2M, ''user_groups'', [''user_id'', ''group_id'']),
          (''User'', ''friends'', M2M, ''user_friends'', [''user_id'', ''friend_id'']),
          (''User'', ''followers'', M2M, ''user_following'', [''user_id'', ''follower_id'']),
          (''User'', ''following'', M2M, ''user_following'', [''user_id'', ''follower_id'']),
          (''User'', ''team'', O2O, ''pets'', [''team_id'']),
          (''User'', ''spouse'', O2O, ''users'', [''user_spouse_id'']),
          (''User'', ''children'', O2M, ''users'', [''parent_id'']),
          (''User'', ''parent'', M2O, ''users'', [''parent_id''])]"
  by code_simp

theorem derived_tables_keys_witness:
  "join_table_shape UserGroupsTable \<and> join_table_shape UserFriendsTable \<and>
   join_table_shape UserFollowingTable \<and> set_null_keys CardsTable \<and>
   set_null_keys FilesTable \<and> set_null_keys GroupsTable \<and> set_null_keys NodesTable \<and>
   set_null_keys PetsTable \<and> set_null_keys UsersTable"
proof -
  from integration_derived obtain g where n: "length (Nodes g) = 11"
    and t: "Tables example_env g = Inr generated_Tables"
    by (cases "NewGraph example_env integration_schemas") auto
  from derived_tables_keys [OF t]
  have a: "\<forall>t \<in> set (take 11 generated_Tables). set_null_keys t"
    and b: "\<forall>t \<in> set (drop 11 generated_Tables). join_table_shape t"
    by (simp_all add: n)
  from a b show ?thesis by (simp add: generated_Tables_def)
qed

subsection \<open>Many-to-many relations of a type to itself\<close>

text \<open>
  Claim C7, where the code departs from it. For a many-to-many relation of a type to
  itself the second column of the join table is named after the singular of the edge's
  name, which need not differ from the owner's label: for the edge \<open>users\<close> of
  \<open>User\<close>, declared alone or as the inverse of an association, both columns of the
  join table are \<open>user_id\<close>.
\<close>

theorem self_reference_columns_collide:
  "resolved example_env users_of_user =
     Inr [(''User'', ''users'', M2M, ''user_users'', [''user_id'', ''user_id''])] \<and>
   derived_columns example_env users_of_user =
     Some [(''users'', [''id'']), (''user_users'', [''user_id'', ''user_id''])] \<and>
   resolved example_env users_following =
     Inr [(''User'', ''users'', M2M, ''user_following'', [''user_id'', ''user_id'']),
          (''User'', ''following'', M2M, ''user_following'', [''user_id'', ''user_id''])] \<and>
   derived_columns example_env users_following =
     Some [(''users'', [''id'']), (''user_following'', [''user_id'', ''user_id''])]"
  by code_simp

text \<open>
  In general the two columns of an association of a type to itself that is resolved alone
  are the owner's label and the singular of the edge's name, each followed by \<open>_id\<close>:
  they differ exactly when that singular differs from the label.
\<close>

lemma get_set_edge:
  "i < length (Nodes g) \<Longrightarrow> j < length (t_Edges (Nodes g ! i)) \<Longrightarrow>
   get_edge (set_edge i j e g) i j = e"
  by (simp add: get_edge_def set_edge_def)

lemma self_reference_columns:
  assumes "i < length (Nodes g)" and "j < length (t_Edges (Nodes g ! i))"
    and "\<not> e_Unique (get_edge g i j)" and "e_Type (get_edge g i j) = i"
    and "e_Owner (get_edge g i j) = i" and "rel_Columns (e_Rel (get_edge g i j)) = []"
  shows "rel_Type (e_Rel (get_edge (resolve_assoc env i j g) i j)) = M2M \<and>
         rel_Columns (e_Rel (get_edge (resolve_assoc env i j g) i j)) =
           [Label env (t_Name (Nodes g ! i)) @ ''_id'',
            Singularize env (e_Name (get_edge g i j)) @ ''_id''] \<and>
         (distinct (rel_Columns (e_Rel (get_edge (resolve_assoc env i j g) i j))) \<longleftrightarrow>
            Singularize env (e_Name (get_edge g i j)) \<noteq> Label env (t_Name (Nodes g ! i)))"
proof -
  let ?e = "get_edge g i j"
  let ?e' = "?e\<lparr>e_SelfRef := True,
                 e_Rel := \<lparr>rel_Type = M2M,
                           rel_Table = Label env (t_Name (Nodes g ! i)) @ ''_'' @ e_Name ?e,
                           rel_Columns = [Label env (t_Name (Nodes g ! i)) @ ''_id'',
                                          Singularize env (e_Name ?e) @ ''_id'']\<rparr>\<rparr>"
  from assms(3-6) have "resolve_assoc env i j g = set_edge i j ?e' g"
    by (simp add: resolve_assoc_def Let_def is_M2M_def)
  with get_set_edge [OF assms(1,2)] have "get_edge (resolve_assoc env i j g) i j = ?e'"
    by simp
  then show ?thesis by auto
qed

subsection \<open>The scenario with \<open>User\<close> and \<open>Pet\<close>\<close>

text \<open>
  Claim C9 as stated fails. With a non-unique edge \<open>owner\<close>, whether \<open>owner\<close> is the
  association or the inverse edge and whether \<open>pets\<close> is unique or not, \<open>Pet.owner\<close>
  resolves to a one-to-many or a many-to-many relation, never to many-to-one.
\<close>

theorem owner_not_unique_not_many_to_one:
  "resolved example_env (spouse_pets_schema True False True) =
     Inr [(''User'', ''spouse'', O2O, ''users'', [''spouse_id'']),
          (''User'', ''spouse'', O2O, ''users'', [''spouse_id'']),
          (''User'', ''pets'', M2O, ''users'', [''pets_id'']),
          (''Pet'', ''owner'', O2M, ''users'', [''pets_id''])] \<and>
   resolved example_env (spouse_pets_schema True False False) =
     Inr [(''User'', ''spouse'', O2O, ''users'', [''spouse_id'']),
          (''User'', ''spouse'', O2O, ''users'', [''spouse_id'']),
          (''User'', ''pets'', M2M, ''pet_owner'', [''pet_id'', ''user_id'']),
          (''Pet'', ''owner'', M2M, ''pet_owner'', [''pet_id'', ''user_id''])] \<and>
   resolved example_env (spouse_pets_schema False False True) =
     Inr [(''User'', ''spouse'', O2O, ''users'', [''spouse_id'']),
          (''User'', ''spouse'', O2O, ''users'', [''spouse_id'']),
          (''User'', ''pets'', M2O, ''users'', [''pets_id'']),
          (''Pet'', ''owner'', O2M, ''users'', [''pets_id''])] \<and>
   resolved example_env (spouse_pets_schema False False False) =
     Inr [(''User'', ''spouse'', O2O, ''users'', [''spouse_id'']),
          (''User'', ''spouse'', O2O, ''users'', [''spouse_id'']),
          (''User'', ''pets'', M2M, ''user_pets'', [''user_id'', ''pet_id'']),
          (''Pet'', ''owner'', M2M, ''user_pets'', [''user_id'', ''pet_id''])]"
  by code_simp

text \<open>
  Claim C9, amended. When \<open>User\<close> declares the unique self-edge \<open>spouse\<close> as an
  inverse edge with its association and \<open>Pet\<close> declares the unique edge \<open>owner\<close> to
  \<open>User\<close>, whose counterpart \<open>pets\<close> of \<open>User\<close> is not unique, the resolver gives:
  \<open>User.spouse\<close> one-to-one with the column \<open>spouse_id\<close> of the table \<open>users\<close>;
  \<open>Pet.owner\<close> many-to-one with the column \<open>owner_id\<close> of the table \<open>pets\<close>; and
  \<open>User.pets\<close> one-to-many on the same table and column. This holds with \<open>owner\<close> as
  the association and with \<open>owner\<close> as the inverse edge.
\<close>

theorem spouse_pets_resolution:
  "resolved example_env (spouse_pets_schema True True False) =
     Inr [(''User'', ''spouse'', O2O, ''users'', [''spouse_id'']),
          (''User'', ''spouse'', O2O, ''users'', [''spouse_id'']),
          (''User'', ''pets'', O2M, ''pets'', [''owner_id'']),
          (''Pet'', ''owner'', M2O, ''pets'', [''owner_id''])] \<and>
   derived_columns example_env (spouse_pets_schema True True False) =
     Some [(''users'', [''id'', ''spouse_id'']), (''pets'', [''id'', ''owner_id''])] \<and>
   resolved example_env (spouse_pets_schema False True False) =
     Inr [(''User'', ''spouse'', O2O, ''users'', [''spouse_id'']),
          (''User'', ''spouse'', O2O, ''users'', [''spouse_id'']),
          (''User'', ''pets'', O2M, ''pets'', [''owner_id'']),
          (''Pet'', ''owner'', M2O, ''pets'', [''owner_id''])] \<and>
   derived_columns example_env (spouse_pets_schema False True False) =
     Some [(''users'', [''id'', ''spouse_id'']), (''pets'', [''id'', ''owner_id''])]"
  by code_simp

end
